theory Spec2Isabelle
  imports Main
begin

section \<open>JavaScript values\<close>

text \<open>
  The values the dialog code stores and compares: \<^verbatim>\<open>undefined\<close>, \<^verbatim>\<open>null\<close>, booleans and
  strings. Numbers, symbols and objects are outside the modelled universe.
\<close>

datatype jsval = JUndefined | JNull | JBool bool | JStr string

text \<open>Truthiness, as used by \<^verbatim>\<open>||\<close>, \<^verbatim>\<open>!\<close> and \<^verbatim>\<open>?:\<close>.\<close>

fun truthy :: "jsval \<Rightarrow> bool" where
  "truthy JUndefined = False"
| "truthy JNull = False"
| "truthy (JBool b) = b"
| "truthy (JStr s) = (s \<noteq> [])"

text \<open>\<^verbatim>\<open>a || b\<close>\<close>

definition js_or :: "jsval \<Rightarrow> jsval \<Rightarrow> jsval" where
  "js_or a b = (if truthy a then a else b)"

text \<open>A default parameter value \<^verbatim>\<open>(x = dflt)\<close> applies when the argument is \<^verbatim>\<open>undefined\<close>.\<close>

definition param_default :: "jsval \<Rightarrow> jsval \<Rightarrow> jsval" where
  "param_default v dflt = (if v = JUndefined then dflt else v)"

text \<open>String conversion, as done by \<^verbatim>\<open>"Alert: " + text\<close>.\<close>

fun toString :: "jsval \<Rightarrow> string" where
  "toString JUndefined = ''undefined''"
| "toString JNull = ''null''"
| "toString (JBool b) = (if b then ''true'' else ''false'')"
| "toString (JStr s) = s"

datatype error = ReferenceError | TypeError

section \<open>The data of a dialog\<close>

text \<open>
  A button as \<^verbatim>\<open>addButton\<close> pushes it: \<^verbatim>\<open>{text, value, type, callback}\<close>. The callback is the
  resolver of the promise that \<^verbatim>\<open>addButton\<close> returns; \<open>Some k\<close> names the resolver created by the
  call that added button number \<open>k\<close>, \<open>None\<close> is a button object without a callback.
\<close>

record button =
  b_text :: jsval
  b_value :: jsval
  b_type :: jsval
  b_callback :: "nat option"

text \<open>
  A text field as \<^verbatim>\<open>addTextField\<close> pushes it: \<^verbatim>\<open>{value, type, placeholder}\<close>, and \<^verbatim>\<open>elem\<close> once
  the popup is created: \<open>Some s\<close> is an input element whose current value is \<open>s\<close>.
\<close>

record textField =
  f_value :: jsval
  f_type :: jsval
  f_placeholder :: jsval
  f_elem :: "string option"

text \<open>
  What a listener registered on a dialog does when it is invoked: it may call
  \<^verbatim>\<open>dismiss\<close> on the dialog again (\<open>CallDismiss JUndefined\<close> is \<^verbatim>\<open>dismiss()\<close>).
\<close>

datatype action = CallDismiss jsval

type_synonym handler = "action list"

text \<open>
  The observable effects, in the order they happen: a notification emitted with its payload,
  a button callback called with its argument, \<^verbatim>\<open>e.preventDefault()\<close>, and the removal of the
  rendered elements being started.
\<close>

datatype effect =
  Emitted string jsval
| Called nat jsval
| PreventDefault
| ElementsRemoved

text \<open>
  The fields the constructor sets up (\<open>d_text\<close> is \<^verbatim>\<open>this.text\<close>), with \<open>ident\<close> for the
  identity of the object, \<open>elems_container\<close> for whether \<^verbatim>\<open>this.elems.container\<close> exists,
  \<open>keydown\<close> for whether the dialog is registered as the window's keydown listener, the
  listeners of the event source the class extends, and the effects so far.
\<close>

record dialog =
  ident :: nat
  title :: jsval
  d_text :: jsval
  buttons :: "button list"
  textFields :: "textField list"
  result :: jsval
  iconURL :: jsval
  cancelable :: jsval
  cancelled :: bool
  dismissed :: bool
  elems_container :: bool
  keydown :: bool
  handlers :: "(string \<times> handler) list"
  trace :: "effect list"

text \<open>A timer set by \<^verbatim>\<open>setTimeout(this.dismiss.bind(this), time)\<close>.\<close>

record timer =
  t_target :: nat
  t_delay :: jsval

text \<open>
  What is global: whether a \<^verbatim>\<open>window\<close> exists, the default popup queue, the console, the
  pending timers, the next object identity, and the two icons of \<^verbatim>\<open>JSAlert.Icons\<close> the
  constructors use (their values are declared in a file of their own and are parameters here).
  \<open>input_value w t v\<close> is the value an input element of the browser holds once it has been
  assigned the value \<open>v\<close> and then the type \<open>t\<close>: the browser converts the value to a string
  and sanitizes it for the type. It is a parameter as well.
\<close>

record world =
  window :: bool
  popupQueue :: "nat list"
  console :: "string list"
  timers :: "timer list"
  next_id :: nat
  Icons_Information :: jsval
  Icons_Question :: jsval
  input_value :: "jsval \<Rightarrow> jsval \<Rightarrow> string"

text \<open>
  An exception leaves the state as it is when it is raised: a call returns \<open>Inr\<close> with the
  state it ends in, or \<open>Inl\<close> with the error and the state at the \<^verbatim>\<open>throw\<close>.
\<close>

type_synonym outcome = "(error \<times> dialog \<times> world) + (dialog \<times> world)"

section \<open>The queue\<close>

text \<open>
  Modelled from the spec: \<^verbatim>\<open>add\<close> of the class \<^verbatim>\<open>Queue\<close> (queue.js) appends the dialog to
  the pending sequence.
\<close>

definition queue_add :: "nat list \<Rightarrow> nat \<Rightarrow> nat list" where
  "queue_add pending i = pending @ [i]"

text \<open>
  Modelled from the spec: \<^verbatim>\<open>remove\<close> of the class \<^verbatim>\<open>Queue\<close> (queue.js) removes the dialog
  from the pending sequence wherever it sits, and is a no-op for an absent dialog.
\<close>

definition queue_remove :: "nat list \<Rightarrow> nat \<Rightarrow> nat list" where
  "queue_remove pending i = removeAll i pending"

section \<open>Configuring a dialog\<close>

text \<open>The constructor, \<^verbatim>\<open>constructor(text = "", title = "")\<close>.\<close>

definition JSAlert_new :: "jsval \<Rightarrow> jsval \<Rightarrow> world \<Rightarrow> dialog \<times> world" where
  "JSAlert_new text0 title0 w =
     (\<lparr>ident = next_id w,
       title = param_default title0 (JStr ''''),
       d_text = param_default text0 (JStr ''''),
       buttons = [],
       textFields = [],
       result = JBool False,
       iconURL = JNull,
       cancelable = JBool True,
       cancelled = False,
       dismissed = False,
       elems_container = False,
       keydown = False,
       handlers = [],
       trace = []\<rparr>,
      w\<lparr>next_id := Suc (next_id w)\<rparr>)"

definition setIcon :: "dialog \<Rightarrow> jsval \<Rightarrow> dialog" where
  "setIcon d icon = d\<lparr>iconURL := icon\<rparr>"

text \<open>
  \<^verbatim>\<open>addButton(text, value, type)\<close>. The promise's executor runs at once, so the button is pushed
  during the call. The returned promise is the one the button's callback resolves.
\<close>

definition addButton :: "dialog \<Rightarrow> jsval \<Rightarrow> jsval \<Rightarrow> jsval \<Rightarrow> dialog" where
  "addButton d text0 value0 type0 =
     d\<lparr>buttons := buttons d @
        [\<lparr>b_text = text0,
          b_value = (if value0 = JUndefined then text0 else value0),
          b_type = js_or type0 (if length (buttons d) = 0 then JStr ''default'' else JStr ''normal''),
          b_callback = Some (length (buttons d))\<rparr>]\<rparr>"

definition addTextField :: "dialog \<Rightarrow> jsval \<Rightarrow> jsval \<Rightarrow> jsval \<Rightarrow> dialog" where
  "addTextField d value0 type0 placeholderText =
     d\<lparr>textFields := textFields d @
        [\<lparr>f_value = js_or value0 (JStr ''''),
          f_type = js_or type0 (JStr ''text''),
          f_placeholder = js_or placeholderText (JStr ''''),
          f_elem = None\<rparr>]\<rparr>"

text \<open>
  \<^verbatim>\<open>getTextFieldValue(index)\<close>: reading \<^verbatim>\<open>info.elem\<close> of a field that does not exist is a
  TypeError.
\<close>

definition getTextFieldValue :: "dialog \<Rightarrow> nat \<Rightarrow> error + jsval" where
  "getTextFieldValue d index =
     (if index < length (textFields d)
      then (let info = textFields d ! index
            in case f_elem info of Some s \<Rightarrow> Inr (JStr s) | None \<Rightarrow> Inr (f_value info))
      else Inl TypeError)"

section \<open>Dismissing\<close>

text \<open>
  \<^verbatim>\<open>removeElements\<close>: nothing when the popup was never created; otherwise the elements fade
  and their removal is scheduled.
\<close>

definition removeElements :: "dialog \<Rightarrow> dialog" where
  "removeElements d =
     (if \<not> elems_container d then d else d\<lparr>trace := trace d @ [ElementsRemoved]\<rparr>)"

text \<open>
  \<^verbatim>\<open>dismiss(result)\<close> is defined in one recursion with the notifications it sends, since a
  handler may call it again. \<^verbatim>\<open>window.removeEventListener\<close> is a ReferenceError where no
  window exists.
\<close>

text \<open>
  Modelled from the spec: \<^verbatim>\<open>emit\<close> of the class \<^verbatim>\<open>EventSource\<close> (event-source.js), which
  synchronously invokes all registered handlers for the event name with the payload, in
  registration order, and does not raise if no handlers are registered. The field
  \<open>handlers\<close> holds the registered handlers with their event names, in registration order;
  \<open>run_handlers\<close> is the loop over them and \<open>run_handler\<close> the body of one handler.
\<close>

function dismiss :: "dialog \<Rightarrow> jsval \<Rightarrow> world \<Rightarrow> outcome"
  and emit :: "string \<Rightarrow> jsval \<Rightarrow> dialog \<Rightarrow> world \<Rightarrow> outcome"
  and run_handlers :: "handler list \<Rightarrow> jsval \<Rightarrow> dialog \<Rightarrow> world \<Rightarrow> outcome"
  and run_handler :: "action list \<Rightarrow> jsval \<Rightarrow> dialog \<Rightarrow> world \<Rightarrow> outcome"
where
  "dismiss d res w =
     (if dismissed d then Inr (d, w)
      else
        let d = d\<lparr>dismissed := True\<rparr>;
            w = w\<lparr>popupQueue := queue_remove (popupQueue w) (ident d)\<rparr>;
            d = d\<lparr>result := res\<rparr>;
            d = (if res = JUndefined then d\<lparr>cancelled := True\<rparr> else d);
            d = removeElements d
        in if \<not> window w then Inl (ReferenceError, d, w)
           else
             let d = d\<lparr>keydown := False\<rparr> in
             case (if cancelled d then emit ''cancelled'' (result d) d w
                   else emit ''complete'' (result d) d w) of
               Inl e \<Rightarrow> Inl e
             | Inr (d, w) \<Rightarrow> emit ''closed'' (result d) d w)"
| "emit name payload d w =
     run_handlers (map snd (filter (\<lambda>h. fst h = name) (handlers d))) payload
       (d\<lparr>trace := trace d @ [Emitted name payload]\<rparr>) w"
| "run_handlers [] payload d w = Inr (d, w)"
| "run_handlers (h # hs) payload d w =
     (case run_handler h payload d w of
        Inl e \<Rightarrow> Inl e
      | Inr (d, w) \<Rightarrow> run_handlers hs payload d w)"
| "run_handler [] payload d w = Inr (d, w)"
| "run_handler (CallDismiss v # as) payload d w =
     (case dismiss d v w of
        Inl e \<Rightarrow> Inl e
      | Inr (d, w) \<Rightarrow> run_handler as payload d w)"
  by pat_completeness auto

lemma dismissed_removeElements [simp]: "dismissed (removeElements d) = dismissed d"
  by (simp add: removeElements_def)

text \<open>
  A handler can call \<^verbatim>\<open>dismiss\<close> again, so the recursion is nested. It ends because a dialog
  that is dismissed stays dismissed: wherever the functions return, they return a dismissed
  dialog when they were given one, and \<open>dismiss\<close> returns one always.
\<close>

lemma dismissed_kept_partial:
  "dismiss_emit_run_handlers_run_handler_dom (Inl (Inl (d, res, w))) \<Longrightarrow>
     \<forall>d' w'. dismiss d res w = Inr (d', w') \<longrightarrow> dismissed d'"
  "dismiss_emit_run_handlers_run_handler_dom (Inl (Inr (name, payload, d, w))) \<Longrightarrow>
     \<forall>d' w'. dismissed d \<longrightarrow> emit name payload d w = Inr (d', w') \<longrightarrow> dismissed d'"
  "dismiss_emit_run_handlers_run_handler_dom (Inr (Inl (hs, payload, d, w))) \<Longrightarrow>
     \<forall>d' w'. dismissed d \<longrightarrow> run_handlers hs payload d w = Inr (d', w') \<longrightarrow> dismissed d'"
  "dismiss_emit_run_handlers_run_handler_dom (Inr (Inr (as, payload, d, w))) \<Longrightarrow>
     \<forall>d' w'. dismissed d \<longrightarrow> run_handler as payload d w = Inr (d', w') \<longrightarrow> dismissed d'"
proof (induct rule: dismiss_emit_run_handlers_run_handler.pinduct)
  case (1 d res w)
  show ?case
  proof (intro allI impI)
    fix d' w'
    assume eq: "dismiss d res w = Inr (d', w')"
    show "dismissed d'"
    proof (cases "dismissed d")
      case True
      with eq 1(1) show ?thesis by (simp add: dismiss.psimps)
    next
      case nd: False
      define xa where
        "xa = w\<lparr>popupQueue := queue_remove (popupQueue w) (ident (d\<lparr>dismissed := True\<rparr>))\<rparr>"
      define xd where "xd = removeElements
          (if res = JUndefined then d\<lparr>dismissed := True\<rparr>\<lparr>result := res\<rparr>\<lparr>cancelled := True\<rparr>
           else d\<lparr>dismissed := True\<rparr>\<lparr>result := res\<rparr>)"
      define xe where "xe = (removeElements
          (if res = JUndefined then d\<lparr>dismissed := True\<rparr>\<lparr>result := res\<rparr>\<lparr>cancelled := True\<rparr>
           else d\<lparr>dismissed := True\<rparr>\<lparr>result := res\<rparr>))\<lparr>keydown := False\<rparr>"
      define first where
        "first = (if cancelled xe then emit ''cancelled'' (result xe) xe xa
                  else emit ''complete'' (result xe) xe xa)"
      have unf: "dismiss d res w =
          (if \<not> window xa then Inl (ReferenceError, xd, xa)
           else case first of Inl e \<Rightarrow> Inl e
                | Inr (d, w) \<Rightarrow> emit ''closed'' (result d) d w)"
        unfolding xa_def xd_def xe_def first_def using nd
        by (simp only: dismiss.psimps[OF 1(1)] Let_def if_False)
      have dxe: "dismissed xe" by (simp add: xe_def)
      from eq unf have win: "\<not> \<not> window xa"
        by (cases "window xa") simp_all
      from eq unf win obtain xf y where f: "first = Inr (xf, y)"
        and c: "emit ''closed'' (result xf) xf y = Inr (d', w')"
        by (cases first) auto
      have "dismissed xf"
      proof (cases "cancelled xe")
        case True
        have "\<forall>d' w'. dismissed xe \<longrightarrow>
                emit ''cancelled'' (result xe) xe xa = Inr (d', w') \<longrightarrow> dismissed d'"
          using 1(2)[OF nd refl refl refl refl refl win[unfolded xa_def] refl
                     True[unfolded xe_def]]
          unfolding xa_def xe_def .
        with f True dxe show ?thesis unfolding first_def by (simp only: if_True)
      next
        case False
        have "\<forall>d' w'. dismissed xe \<longrightarrow>
                emit ''complete'' (result xe) xe xa = Inr (d', w') \<longrightarrow> dismissed d'"
          using 1(3)[OF nd refl refl refl refl refl win[unfolded xa_def] refl
                     False[unfolded xe_def]]
          unfolding xa_def xe_def .
        with f False dxe show ?thesis unfolding first_def by (simp only: if_False)
      qed
      moreover have "\<forall>d' w'. dismissed xf \<longrightarrow>
                emit ''closed'' (result xf) xf y = Inr (d', w') \<longrightarrow> dismissed d'"
        using 1(4)[OF nd refl refl refl refl refl win[unfolded xa_def] refl
                   f[unfolded first_def xe_def xa_def] refl] .
      ultimately show ?thesis using c by blast
    qed
  qed
next
  case (2 name payload d w)
  then show ?case by (simp add: emit.psimps)
next
  case (3 payload d w)
  then show ?case by (simp add: run_handlers.psimps)
next
  case (4 h hs payload d w)
  show ?case
  proof (intro allI impI)
    fix d' w'
    assume dd: "dismissed d"
      and eq: "run_handlers (h # hs) payload d w = Inr (d', w')"
    from eq 4(1) obtain x y where f: "run_handler h payload d w = Inr (x, y)"
      and c: "run_handlers hs payload x y = Inr (d', w')"
      by (cases "run_handler h payload d w") (auto simp: run_handlers.psimps)
    from 4(2) dd f have "dismissed x" by blast
    with 4(3)[OF f refl] c show "dismissed d'" by blast
  qed
next
  case (5 payload d w)
  then show ?case by (simp add: run_handler.psimps)
next
  case (6 v as payload d w)
  show ?case
  proof (intro allI impI)
    fix d' w'
    assume dd: "dismissed d"
      and eq: "run_handler (CallDismiss v # as) payload d w = Inr (d', w')"
    from eq 6(1) obtain x y where f: "dismiss d v w = Inr (x, y)"
      and c: "run_handler as payload x y = Inr (d', w')"
      by (cases "dismiss d v w") (auto simp: run_handler.psimps)
    from 6(2) f have "dismissed x" by blast
    with 6(3)[OF f refl] c show "dismissed d'" by blast
  qed
qed

termination dismiss
  apply (relation "inv_image (less_than <*lex*> less_than <*lex*> less_than)
     (\<lambda>x. case x of
        Inl (Inl (d, res, w)) \<Rightarrow> (if dismissed d then 0 else 1::nat, 0::nat, 0::nat)
      | Inl (Inr (name, p, d, w)) \<Rightarrow> (if dismissed d then 0 else 1, 3, 0)
      | Inr (Inl (hs, p, d, w)) \<Rightarrow> (if dismissed d then 0 else 1, 2, length hs)
      | Inr (Inr (as, p, d, w)) \<Rightarrow> (if dismissed d then 0 else 1, 1, length as))")
  subgoal by (intro wf_inv_image wf_lex_prod wf_less_than)
  subgoal by simp
  subgoal by simp
  subgoal premises p for d res w x xa xb xc xd xe b xf y
  proof -
    have dxe: "dismissed xe"
      by (simp add: p(2-6,8))
    have "dismissed xf"
    proof (cases "cancelled xe")
      case True
      with p(9,10) have "emit ''cancelled'' (result xe) xe xa = Inr (xf, y)" by simp
      with dismissed_kept_partial(2)[OF p(12)[OF True]] dxe show ?thesis by blast
    next
      case False
      with p(9,10) have "emit ''complete'' (result xe) xe xa = Inr (xf, y)" by simp
      with dismissed_kept_partial(2)[OF p(11)[OF False]] dxe show ?thesis by blast
    qed
    with p(1) show ?thesis by simp
  qed
  subgoal by simp
  subgoal by simp
  subgoal premises p for h hs payload d w b x y
  proof -
    from p(1,2) have "run_handler h payload d w = Inr (x, y)" by simp
    with dismissed_kept_partial(4)[OF p(3)] have "dismissed d \<longrightarrow> dismissed x" by blast
    then show ?thesis by simp
  qed
  subgoal by simp
  subgoal premises p for v as payload d w b x y
  proof -
    from p(1,2) have "dismiss d v w = Inr (x, y)" by simp
    with dismissed_kept_partial(1)[OF p(3)] have "dismissed x" by blast
    then show ?thesis by simp
  qed
  done

declare dismiss.simps [simp del] emit.simps [simp del]

text \<open>
  \<^verbatim>\<open>dismissIn(time)\<close> sets a timer whose callback is \<^verbatim>\<open>dismiss\<close> bound to the dialog; the timer
  calls it with no argument.
\<close>

definition dismissIn :: "dialog \<Rightarrow> jsval \<Rightarrow> world \<Rightarrow> dialog \<times> world" where
  "dismissIn d time w = (d, w\<lparr>timers := timers w @ [\<lparr>t_target = ident d, t_delay = time\<rparr>]\<rparr>)"

definition run_timer :: "timer \<Rightarrow> dialog \<Rightarrow> world \<Rightarrow> outcome" where
  "run_timer t d w = (if t_target t = ident d then dismiss d JUndefined w else Inr (d, w))"

section \<open>Showing\<close>

text \<open>\<^verbatim>\<open>show()\<close> adds the dialog to the queue and returns the dialog.\<close>

definition show_js :: "dialog \<Rightarrow> world \<Rightarrow> dialog \<times> world" where
  "show_js d w = (d, w\<lparr>popupQueue := queue_add (popupQueue w) (ident d)\<rparr>)"

text \<open>
  \<^verbatim>\<open>createPopup\<close>, as far as the state goes: the container exists, and every text field gets
  an input element, which is assigned the field's value and then the field's type.
\<close>

definition createPopup :: "dialog \<Rightarrow> world \<Rightarrow> dialog" where
  "createPopup d w =
     d\<lparr>elems_container := True,
       textFields :=
         map (\<lambda>b. b\<lparr>f_elem := Some (input_value w (f_type b) (f_value b))\<rparr>) (textFields d)\<rparr>"

text \<open>
  \<^verbatim>\<open>_show()\<close>: creates the elements and registers the keydown listener; \<^verbatim>\<open>document\<close> and
  \<^verbatim>\<open>window\<close> are ReferenceErrors where no window exists.
\<close>

definition private_show :: "dialog \<Rightarrow> world \<Rightarrow> outcome" where
  "private_show d w =
     (if \<not> window w then Inl (ReferenceError, d, w)
      else Inr ((createPopup d w)\<lparr>keydown := True\<rparr>, w))"

text \<open>
  The continuation \<^verbatim>\<open>show\<close> attaches to the queue's future, run when the queue admits the
  dialog: \<^verbatim>\<open>this._show(); this.emit("opened")\<close>.
\<close>

definition show_admitted :: "dialog \<Rightarrow> world \<Rightarrow> outcome" where
  "show_admitted d w =
     (case private_show d w of
        Inl e \<Rightarrow> Inl e
      | Inr (d, w) \<Rightarrow> emit ''opened'' JUndefined d w)"

section \<open>Input events\<close>

text \<open>The user edits a rendered text field: the input element's value changes.\<close>

definition typed :: "dialog \<Rightarrow> nat \<Rightarrow> string \<Rightarrow> dialog" where
  "typed d idx s =
     (if idx < length (textFields d) \<and> f_elem (textFields d ! idx) \<noteq> None
      then d\<lparr>textFields := (textFields d)[idx := (textFields d ! idx)\<lparr>f_elem := Some s\<rparr>]\<rparr>
      else d)"

text \<open>
  The touch handler \<^verbatim>\<open>createPopup\<close> puts on the container (the backdrop), when the container
  itself is pressed.
\<close>

definition container_pressed :: "dialog \<Rightarrow> world \<Rightarrow> outcome" where
  "container_pressed d w =
     (if \<not> truthy (cancelable d) then Inr (d, w)
      else dismiss (d\<lparr>cancelled := True\<rparr>) JUndefined w)"

text \<open>The touch handler \<^verbatim>\<open>createPopup\<close> puts on the element of button \<open>b\<close>.\<close>

definition button_pressed :: "dialog \<Rightarrow> button \<Rightarrow> world \<Rightarrow> outcome" where
  "button_pressed d b w =
     (let d = (case b_callback b of
                 Some k \<Rightarrow> d\<lparr>trace := trace d @ [Called k (b_value b)]\<rparr>
               | None \<Rightarrow> d);
          d = (if b_type b = JStr ''cancel'' then d\<lparr>cancelled := True\<rparr> else d)
      in dismiss d (b_value b) w)"

text \<open>
  The keypress listener \<^verbatim>\<open>createPopup\<close> puts on the input element of text field \<open>idx\<close>.
  Moving the focus to the next field changes nothing in the state.
\<close>

definition field_keypress :: "dialog \<Rightarrow> nat \<Rightarrow> nat \<Rightarrow> world \<Rightarrow> outcome" where
  "field_keypress d idx keyCode w =
     (if keyCode \<noteq> 13 then Inr (d, w)
      else if idx + 1 \<ge> length (textFields d) then dismiss d (JStr ''enter-pressed'') w
      else Inr (d, w))"

text \<open>
  The loops of \<^verbatim>\<open>handleEvent\<close> look for the first button, in the order of the list, whose
  type is the given string. (\<^verbatim>\<open>==\<close> against a string that is no number holds for that
  string only, among the values modelled.)
\<close>

fun first_of_type :: "string \<Rightarrow> button list \<Rightarrow> button option" where
  "first_of_type t [] = None"
| "first_of_type t (b # bs) = (if b_type b = JStr t then Some b else first_of_type t bs)"

text \<open>
  What both loops of \<^verbatim>\<open>handleEvent\<close> do with the button they find: dismiss with its value,
  \<^verbatim>\<open>e.preventDefault()\<close>, then the button's callback with \<^verbatim>\<open>this.result\<close>.
\<close>

definition use_button :: "dialog \<Rightarrow> button \<Rightarrow> world \<Rightarrow> outcome" where
  "use_button d b w =
     (case dismiss d (b_value b) w of
        Inl e \<Rightarrow> Inl e
      | Inr (d, w) \<Rightarrow>
          let d = d\<lparr>trace := trace d @ [PreventDefault]\<rparr>
          in Inr (case b_callback b of
                    Some k \<Rightarrow> d\<lparr>trace := trace d @ [Called k (result d)]\<rparr>
                  | None \<Rightarrow> d, w))"

text \<open>\<^verbatim>\<open>handleEvent(e)\<close>, the window's keydown listener, by \<^verbatim>\<open>e.keyCode\<close>.\<close>

definition handleEvent :: "dialog \<Rightarrow> nat \<Rightarrow> world \<Rightarrow> outcome" where
  "handleEvent d keyCode w =
     (if keyCode = 13 then
        (case first_of_type ''default'' (buttons d) of
           Some b \<Rightarrow> use_button d b w
         | None \<Rightarrow> dismiss (d\<lparr>cancelled := True\<rparr>) JUndefined w)
      else if keyCode = 27 then
        (if \<not> truthy (cancelable d) then Inr (d, w)
         else
           let d = d\<lparr>cancelled := True, result := JNull\<rparr>
           in case first_of_type ''cancel'' (buttons d) of
                Some b \<Rightarrow> use_button d b w
              | None \<Rightarrow> dismiss (d\<lparr>cancelled := True\<rparr>) JUndefined w)
      else Inr (d, w))"

section \<open>The convenience constructors\<close>

text \<open>
  What a constructor returns: a promise that is already resolved, the dialog itself (which
  has a \<^verbatim>\<open>then\<close>), or the promise \<^verbatim>\<open>alert.show().then(...)\<close> of \<^verbatim>\<open>prompt\<close>. The dialog in
  the last two is the dialog's state.
\<close>

datatype returned = ResolvedPromise jsval | Instance dialog | ClosedThen dialog

definition alert :: "jsval \<Rightarrow> jsval \<Rightarrow> jsval \<Rightarrow> jsval \<Rightarrow> world \<Rightarrow> returned \<times> world" where
  "alert text0 title0 icon closeText w =
     (if \<not> window w
      then (ResolvedPromise JUndefined,
            w\<lparr>console := console w @ [''Alert: '' @ toString text0]\<rparr>)
      else
        let closeText = param_default closeText (JStr ''Close'');
            (a, w) = JSAlert_new text0 title0 w;
            a = addButton a closeText JNull JUndefined;
            a = (if icon \<noteq> JBool False then setIcon a (js_or icon (Icons_Information w)) else a);
            (a, w) = show_js a w
        in (Instance a, w))"

definition confirm ::
  "jsval \<Rightarrow> jsval \<Rightarrow> jsval \<Rightarrow> jsval \<Rightarrow> jsval \<Rightarrow> world \<Rightarrow> returned \<times> world" where
  "confirm text0 title0 icon acceptText rejectText w =
     (if \<not> window w
      then (ResolvedPromise JUndefined,
            w\<lparr>console := console w @ [''Alert: '' @ toString text0]\<rparr>)
      else
        let acceptText = param_default acceptText (JStr ''OK'');
            rejectText = param_default rejectText (JStr ''Cancel'');
            (a, w) = JSAlert_new text0 title0 w;
            a = addButton a acceptText (JBool True) JUndefined;
            a = addButton a rejectText (JBool False) JUndefined;
            a = (if icon \<noteq> JBool False then setIcon a (js_or icon (Icons_Question w)) else a);
            (a, w) = show_js a w
        in (Instance a, w))"

definition prompt ::
  "jsval \<Rightarrow> jsval \<Rightarrow> jsval \<Rightarrow> jsval \<Rightarrow> jsval \<Rightarrow> jsval \<Rightarrow> jsval \<Rightarrow> world \<Rightarrow> returned \<times> world"
  where
  "prompt text0 defaultText placeholderText title0 icon acceptText rejectText w =
     (if \<not> window w
      then (ResolvedPromise JUndefined,
            w\<lparr>console := console w @ [''Alert: '' @ toString text0]\<rparr>)
      else
        let acceptText = param_default acceptText (JStr ''OK'');
            rejectText = param_default rejectText (JStr ''Cancel'');
            (a, w) = JSAlert_new text0 title0 w;
            a = addButton a acceptText (JBool True) (JStr ''default'');
            a = addButton a rejectText (JBool False) (JStr ''cancel'');
            a = (if icon \<noteq> JBool False then setIcon a (js_or icon (Icons_Question w)) else a);
            a = addTextField a defaultText JNull placeholderText;
            (a, w) = show_js a w
        in (ClosedThen a, w))"

definition loader :: "jsval \<Rightarrow> jsval \<Rightarrow> world \<Rightarrow> returned \<times> world" where
  "loader text0 cancelable0 w =
     (if \<not> window w
      then (ResolvedPromise JUndefined,
            w\<lparr>console := console w @ [''Loading: '' @ toString text0]\<rparr>)
      else
        let (a, w) = JSAlert_new text0 JUndefined w;
            a = a\<lparr>cancelable := cancelable0\<rparr>;
            (a, w) = show_js a w
        in (Instance a, w))"

text \<open>The continuation \<^verbatim>\<open>prompt\<close> chains on the dialog.\<close>

definition prompt_then :: "dialog \<Rightarrow> error + jsval" where
  "prompt_then a = (if cancelled a then Inr JNull else getTextFieldValue a 0)"

text \<open>The notifications among the effects, and the payload of the first one of a name.\<close>

fun emissions :: "effect list \<Rightarrow> (string \<times> jsval) list" where
  "emissions [] = []"
| "emissions (Emitted n p # es) = (n, p) # emissions es"
| "emissions (Called k v # es) = emissions es"
| "emissions (PreventDefault # es) = emissions es"
| "emissions (ElementsRemoved # es) = emissions es"

fun first_emitted :: "string \<Rightarrow> effect list \<Rightarrow> jsval option" where
  "first_emitted n [] = None"
| "first_emitted n (Emitted m p # es) = (if m = n then Some p else first_emitted n es)"
| "first_emitted n (Called k v # es) = first_emitted n es"
| "first_emitted n (PreventDefault # es) = first_emitted n es"
| "first_emitted n (ElementsRemoved # es) = first_emitted n es"

text \<open>The button callbacks called among the effects, with their arguments.\<close>

fun calls :: "effect list \<Rightarrow> (nat \<times> jsval) list" where
  "calls [] = []"
| "calls (Called k v # es) = (k, v) # calls es"
| "calls (Emitted n p # es) = calls es"
| "calls (PreventDefault # es) = calls es"
| "calls (ElementsRemoved # es) = calls es"

text \<open>
  Modelled from the spec: \<^verbatim>\<open>when\<close> of the class \<^verbatim>\<open>EventSource\<close> (event-source.js) returns a
  single-resolution future that completes with the first emission's payload, and \<^verbatim>\<open>then\<close>
  on a dialog is \<^verbatim>\<open>when("closed").then\<close>. \<open>settled r\<close> is what the returned future has
  resolved to, if it has, the dialog standing in \<open>r\<close> being the dialog's state when the
  continuation runs (continuations of a promise run after the code that resolved it).
\<close>

fun settled :: "returned \<Rightarrow> (error + jsval) option" where
  "settled (ResolvedPromise v) = Some (Inr v)"
| "settled (Instance d) =
     (case first_emitted ''closed'' (trace d) of None \<Rightarrow> None | Some p \<Rightarrow> Some (Inr p))"
| "settled (ClosedThen d) =
     (case first_emitted ''closed'' (trace d) of None \<Rightarrow> None | Some p \<Rightarrow> Some (prompt_then d))"

definition closed_count :: "dialog \<Rightarrow> nat" where
  "closed_count d = length (filter (\<lambda>e. fst e = ''closed'') (emissions (trace d)))"

section \<open>States the operations end in\<close>

text \<open>The state a first dismissal ends in.\<close>

definition dismissed_state :: "dialog \<Rightarrow> jsval \<Rightarrow> dialog" where
  "dismissed_state d res =
     d\<lparr>dismissed := True,
       result := res,
       cancelled := (cancelled d \<or> res = JUndefined),
       keydown := False,
       trace := trace d @ (if elems_container d then [ElementsRemoved] else []) @
                [Emitted (if cancelled d \<or> res = JUndefined then ''cancelled'' else ''complete'') res,
                 Emitted ''closed'' res]\<rparr>"

text \<open>The state in which a first dismissal sends its first notification.\<close>

definition before_emit :: "dialog \<Rightarrow> jsval \<Rightarrow> dialog" where
  "before_emit d res =
     (removeElements
        (if res = JUndefined then d\<lparr>dismissed := True, result := res, cancelled := True\<rparr>
         else d\<lparr>dismissed := True, result := res\<rparr>))
     \<lparr>keydown := False\<rparr>"

text \<open>What \<open>use_button\<close> ends in, for a dialog that is not yet dismissed.\<close>

definition used_state :: "dialog \<Rightarrow> button \<Rightarrow> dialog" where
  "used_state d b =
     (let d1 = dismissed_state d (b_value b)
      in d1\<lparr>trace := trace d1 @ PreventDefault #
                (case b_callback b of Some k \<Rightarrow> [Called k (b_value b)] | None \<Rightarrow> [])\<rparr>)"

text \<open>The state in which the touch handler of a button calls \<open>dismiss\<close>.\<close>

definition pressed_state :: "dialog \<Rightarrow> button \<Rightarrow> dialog" where
  "pressed_state d b =
     (let d = (case b_callback b of
                 Some k \<Rightarrow> d\<lparr>trace := trace d @ [Called k (b_value b)]\<rparr>
               | None \<Rightarrow> d)
      in if b_type b = JStr ''cancel'' then d\<lparr>cancelled := True\<rparr> else d)"

text \<open>The dialog \<open>prompt\<close> creates.\<close>

definition prompt_dialog ::
  "jsval \<Rightarrow> jsval \<Rightarrow> jsval \<Rightarrow> jsval \<Rightarrow> jsval \<Rightarrow> jsval \<Rightarrow> jsval \<Rightarrow> world \<Rightarrow> dialog"
  where
  "prompt_dialog text0 defaultText placeholderText title0 icon acceptText rejectText w =
     \<lparr>ident = next_id w,
      title = param_default title0 (JStr ''''),
      d_text = param_default text0 (JStr ''''),
      buttons = [\<lparr>b_text = param_default acceptText (JStr ''OK''), b_value = JBool True,
                  b_type = JStr ''default'', b_callback = Some 0\<rparr>,
                 \<lparr>b_text = param_default rejectText (JStr ''Cancel''), b_value = JBool False,
                  b_type = JStr ''cancel'', b_callback = Some 1\<rparr>],
      textFields = [\<lparr>f_value = js_or defaultText (JStr ''''), f_type = JStr ''text'',
                     f_placeholder = js_or placeholderText (JStr ''''), f_elem = None\<rparr>],
      result = JBool False,
      iconURL = (if icon \<noteq> JBool False then js_or icon (Icons_Question w) else JNull),
      cancelable = JBool True,
      cancelled = False,
      dismissed = False,
      elems_container = False,
      keydown = False,
      handlers = [],
      trace = []\<rparr>"

text \<open>The dialog \<open>alert\<close> creates.\<close>

definition alert_dialog :: "jsval \<Rightarrow> jsval \<Rightarrow> jsval \<Rightarrow> jsval \<Rightarrow> world \<Rightarrow> dialog" where
  "alert_dialog text0 title0 icon closeText w =
     \<lparr>ident = next_id w,
      title = param_default title0 (JStr ''''),
      d_text = param_default text0 (JStr ''''),
      buttons = [\<lparr>b_text = param_default closeText (JStr ''Close''), b_value = JNull,
                  b_type = JStr ''default'', b_callback = Some 0\<rparr>],
      textFields = [],
      result = JBool False,
      iconURL = (if icon \<noteq> JBool False then js_or icon (Icons_Information w) else JNull),
      cancelable = JBool True,
      cancelled = False,
      dismissed = False,
      elems_container = False,
      keydown = False,
      handlers = [],
      trace = []\<rparr>"

section \<open>Example states\<close>

text \<open>Removing the line breaks of a string, which is how a text input sanitizes its value.\<close>

definition strip_newlines :: "string \<Rightarrow> string" where
  "strip_newlines cs = filter (\<lambda>c. c \<noteq> CHR 0x0A \<and> c \<noteq> CHR 0x0D) cs"

text \<open>A browser with one dialog in the queue; its inputs strip line breaks.\<close>

definition ex_world :: world where
  "ex_world =
     \<lparr>window = True, popupQueue = [7], console = [], timers = [], next_id = 8,
      Icons_Information = JStr ''information.svg'', Icons_Question = JStr ''question.svg'',
      input_value = (\<lambda>t v. strip_newlines (toString v))\<rparr>"

text \<open>
  That dialog, rendered and not yet dismissed, with two buttons and with listeners that call
  \<^verbatim>\<open>dismiss\<close> again from inside each notification.
\<close>

definition ex_dialog :: dialog where
  "ex_dialog =
     \<lparr>ident = 7, title = JStr ''Title'', d_text = JStr ''Text'',
      buttons = [\<lparr>b_text = JStr ''No'', b_value = JStr ''N'', b_type = JStr ''normal'',
                  b_callback = Some 0\<rparr>,
                 \<lparr>b_text = JStr ''Yes'', b_value = JStr ''X'', b_type = JStr ''default'',
                  b_callback = Some 1\<rparr>],
      textFields = [], result = JBool False, iconURL = JNull, cancelable = JBool True,
      cancelled = False, dismissed = False, elems_container = True, keydown = True,
      handlers = [(''complete'', [CallDismiss JUndefined]),
                  (''cancelled'', [CallDismiss (JStr ''again'')]),
                  (''closed'', [CallDismiss (JStr ''again''), CallDismiss JUndefined])],
      trace = []\<rparr>"

text \<open>No browser: no window exists.\<close>

definition ex_headless :: world where
  "ex_headless = ex_world\<lparr>window := False\<rparr>"

text \<open>
  The dialog \<^verbatim>\<open>new JSAlert("Saved")\<close> creates where no window exists, the world after that,
  and a timer \<^verbatim>\<open>dismissIn\<close> sets for that dialog.
\<close>

definition ex_fresh :: dialog where
  "ex_fresh =
     \<lparr>ident = 8, title = JStr [], d_text = JStr ''Saved'', buttons = [], textFields = [],
      result = JBool False, iconURL = JNull, cancelable = JBool True, cancelled = False,
      dismissed = False, elems_container = False, keydown = False, handlers = [],
      trace = []\<rparr>"

definition ex_node :: world where
  "ex_node = ex_headless\<lparr>next_id := 9\<rparr>"

definition ex_timer :: timer where
  "ex_timer = \<lparr>t_target = 8, t_delay = JStr ''3000''\<rparr>"

text \<open>A browser in which no dialog has been created yet.\<close>

definition ex_browser :: world where
  "ex_browser = ex_world\<lparr>popupQueue := [], next_id := 0\<rparr>"

text \<open>The same dialog with its first button only: no default button and no cancel button.\<close>

definition ex_plain :: dialog where
  "ex_plain = ex_dialog\<lparr>buttons := [hd (buttons ex_dialog)]\<rparr>"

text \<open>The same dialog with a cancel button in the second place.\<close>

definition ex_cancel :: dialog where
  "ex_cancel =
     ex_dialog\<lparr>buttons := buttons ex_dialog @
        [\<lparr>b_text = JStr ''Back'', b_value = JStr ''B'', b_type = JStr ''cancel'',
          b_callback = Some 2\<rparr>]\<rparr>"

text \<open>That browser after one dialog has been created and shown.\<close>

definition ex_shown :: world where
  "ex_shown = ex_browser\<lparr>popupQueue := [0], next_id := 1\<rparr>"

text \<open>The alert of the example, created, shown, and closed by the Escape key.\<close>

definition ex_alert :: dialog where
  "ex_alert =
     \<lparr>ident = 0, title = JStr '''', d_text = JStr ''Saved'',
      buttons = [\<lparr>b_text = JStr ''Close'', b_value = JNull, b_type = JStr ''default'',
                  b_callback = Some 0\<rparr>],
      textFields = [], result = JBool False, iconURL = JStr ''information.svg'',
      cancelable = JBool True, cancelled = False, dismissed = False, elems_container = False,
      keydown = False, handlers = [], trace = []\<rparr>"

definition ex_alert_shown :: dialog where
  "ex_alert_shown =
     ex_alert\<lparr>elems_container := True, keydown := True,
              trace := [Emitted ''opened'' JUndefined]\<rparr>"

definition ex_alert_escaped :: dialog where
  "ex_alert_escaped =
     ex_alert_shown\<lparr>result := JUndefined, cancelled := True, dismissed := True,
       keydown := False,
       trace := [Emitted ''opened'' JUndefined, ElementsRemoved,
                 Emitted ''cancelled'' JUndefined, Emitted ''closed'' JUndefined]\<rparr>"

section \<open>How a dismissal runs\<close>

lemma dismiss_dismissed: "dismissed d \<Longrightarrow> dismiss d res w = Inr (d, w)"
  by (simp add: dismiss.simps)

lemma run_handler_dismissed: "dismissed d \<Longrightarrow> run_handler as payload d w = Inr (d, w)"
proof (induction as)
  case Nil
  then show ?case by simp
next
  case (Cons a as)
  then show ?case by (cases a) (simp add: dismiss_dismissed)
qed

lemma run_handlers_dismissed: "dismissed d \<Longrightarrow> run_handlers hs payload d w = Inr (d, w)"
  by (induction hs) (simp_all add: run_handler_dismissed)

lemma emit_dismissed:
  "dismissed d \<Longrightarrow> emit name payload d w = Inr (d\<lparr>trace := trace d @ [Emitted name payload]\<rparr>, w)"
  by (simp add: emit.simps run_handlers_dismissed)

lemma dismiss_first:
  assumes "\<not> dismissed d" and "window w"
  shows "dismiss d res w =
         Inr (dismissed_state d res, w\<lparr>popupQueue := queue_remove (popupQueue w) (ident d)\<rparr>)"
proof (cases "res = JUndefined")
  case True
  with assms show ?thesis
    by (simp add: dismiss.simps Let_def emit_dismissed removeElements_def dismissed_state_def)
next
  case False
  with assms show ?thesis
    by (cases "cancelled d")
       (simp_all add: dismiss.simps Let_def emit_dismissed removeElements_def dismissed_state_def)
qed

lemma emissions_append: "emissions (xs @ ys) = emissions xs @ emissions ys"
  by (induction xs rule: emissions.induct) simp_all

lemma emissions_dismissed_state:
  "emissions (trace (dismissed_state d res)) =
     emissions (trace d) @
       [(if cancelled d \<or> res = JUndefined then ''cancelled'' else ''complete'', res),
        (''closed'', res)]"
  by (simp add: dismissed_state_def emissions_append)

lemma closed_count_dismissed_state:
  "closed_count (dismissed_state d res) = Suc (closed_count d)"
  by (simp add: closed_count_def emissions_dismissed_state)

lemma dismissed_state_fields:
  "dismissed (dismissed_state d res)"
  "result (dismissed_state d res) = res"
  "cancelled (dismissed_state d res) = (cancelled d \<or> res = JUndefined)"
  "buttons (dismissed_state d res) = buttons d"
  "textFields (dismissed_state d res) = textFields d"
  "ident (dismissed_state d res) = ident d"
  by (simp_all add: dismissed_state_def)

lemma dismiss_unfold:
  assumes "\<not> dismissed d" and "window w"
  shows "dismiss d res w =
     (case emit (if cancelled d \<or> res = JUndefined then ''cancelled'' else ''complete'') res
             (before_emit d res) (w\<lparr>popupQueue := queue_remove (popupQueue w) (ident d)\<rparr>) of
        Inl e \<Rightarrow> Inl e
      | Inr (d1, w1) \<Rightarrow> emit ''closed'' (result d1) d1 w1)"
proof (cases "res = JUndefined")
  case True
  with assms show ?thesis
    by (simp add: dismiss.simps Let_def removeElements_def before_emit_def)
next
  case False
  with assms show ?thesis
    by (cases "cancelled d")
       (simp_all add: dismiss.simps Let_def removeElements_def before_emit_def)
qed

lemma before_emit_fields:
  "dismissed (before_emit d res)"
  "result (before_emit d res) = res"
  "emissions (trace (before_emit d res)) = emissions (trace d)"
  "cancelled (before_emit d res) = (cancelled d \<or> res = JUndefined)"
  by (simp_all add: before_emit_def removeElements_def emissions_append)

section \<open>Dismissal\<close>

text \<open>
  C1, as the code has it. \<^verbatim>\<open>dismiss\<close> is idempotent. On a dialog whose dismissed flag is already true it changes
  no state and emits nothing. In a browser, a first dismissal of any dialog, whatever its
  listeners do (they may call \<^verbatim>\<open>dismiss\<close> again from inside a notification), sends its first
  notification from a state whose dismissed flag is already true and in which nothing has
  been emitted yet; it returns a dismissed dialog with exactly one more \<^verbatim>\<open>"closed"\<close>
  emission, and a second call changes nothing, so the two calls together produce exactly one
  \<^verbatim>\<open>"closed"\<close> emission.
\<close>

theorem dismiss_idempotent:
  "(dismissed d \<longrightarrow> dismiss d outcome w = Inr (d, w)) \<and>
   (\<not> dismissed d \<and> window w \<longrightarrow>
      (\<exists>d0 w0 name d1 w1.
          dismissed d0 \<and> emissions (trace d0) = emissions (trace d) \<and>
          name = (if cancelled d0 then ''cancelled'' else ''complete'') \<and>
          emit name (result d0) d0 w0 = Inr (d1, w1) \<and>
          dismiss d outcome w = emit ''closed'' (result d1) d1 w1) \<and>
      (\<exists>d2 w2.
          dismiss d outcome w = Inr (d2, w2) \<and> dismissed d2 \<and>
          closed_count d2 = Suc (closed_count d) \<and>
          dismiss d2 outcome2 w2 = Inr (d2, w2)))"
proof (intro conjI impI)
  assume "dismissed d"
  then show "dismiss d outcome w = Inr (d, w)" by (rule dismiss_dismissed)
next
  assume a: "\<not> dismissed d \<and> window w"
  let ?d0 = "before_emit d outcome"
  let ?w0 = "w\<lparr>popupQueue := queue_remove (popupQueue w) (ident d)\<rparr>"
  let ?name = "if cancelled d \<or> outcome = JUndefined then ''cancelled'' else ''complete''"
  let ?d1 = "?d0\<lparr>trace := trace ?d0 @ [Emitted ?name outcome]\<rparr>"
  have e: "emit ?name (result ?d0) ?d0 ?w0 = Inr (?d1, ?w0)"
    by (simp only: before_emit_fields(2) emit_dismissed[OF before_emit_fields(1)])
  have "dismiss d outcome w = emit ''closed'' (result ?d1) ?d1 ?w0"
    using a e by (simp add: dismiss_unfold before_emit_fields(2))
  moreover have "?name = (if cancelled ?d0 then ''cancelled'' else ''complete'')"
    by (simp only: before_emit_fields(4))
  ultimately show "\<exists>d0 w0 name d1 w1.
          dismissed d0 \<and> emissions (trace d0) = emissions (trace d) \<and>
          name = (if cancelled d0 then ''cancelled'' else ''complete'') \<and>
          emit name (result d0) d0 w0 = Inr (d1, w1) \<and>
          dismiss d outcome w = emit ''closed'' (result d1) d1 w1"
    using e before_emit_fields(1,3) by blast
next
  assume a: "\<not> dismissed d \<and> window w"
  let ?d2 = "dismissed_state d outcome"
  let ?w2 = "w\<lparr>popupQueue := queue_remove (popupQueue w) (ident d)\<rparr>"
  from a have "dismiss d outcome w = Inr (?d2, ?w2)" by (simp add: dismiss_first)
  moreover have "dismissed ?d2" by (rule dismissed_state_fields(1))
  moreover have "closed_count ?d2 = Suc (closed_count d)" by (rule closed_count_dismissed_state)
  moreover have "dismiss ?d2 outcome2 ?w2 = Inr (?d2, ?w2)"
    by (rule dismiss_dismissed[OF dismissed_state_fields(1)])
  ultimately show "\<exists>d2 w2.
          dismiss d outcome w = Inr (d2, w2) \<and> dismissed d2 \<and>
          closed_count d2 = Suc (closed_count d) \<and>
          dismiss d2 outcome2 w2 = Inr (d2, w2)"
    by blast
qed

theorem dismiss_idempotent_witness:
  "\<not> dismissed ex_dialog \<and> window ex_world \<and>
   (\<exists>d2 w2.
       dismiss ex_dialog (JStr ''X'') ex_world = Inr (d2, w2) \<and> dismissed d2 \<and>
       closed_count d2 = Suc (closed_count ex_dialog) \<and>
       dismiss d2 JUndefined w2 = Inr (d2, w2))"
  using dismiss_idempotent[of ex_dialog "JStr ''X''" ex_world JUndefined]
  by (simp add: ex_dialog_def ex_world_def)

text \<open>
  C1, as the claim has it, fails where no window exists: on the dialog \<^verbatim>\<open>new JSAlert("Saved")\<close>
  the first call of \<^verbatim>\<open>dismiss\<close> sets the dismissed flag and the result and then raises a
  ReferenceError at \<^verbatim>\<open>window.removeEventListener\<close>, before any notification; the second call
  does nothing. The two calls produce no \<^verbatim>\<open>"closed"\<close> emission.
\<close>

theorem dismiss_idempotent_counterexample:
  "JSAlert_new (JStr ''Saved'') JUndefined ex_headless = (ex_fresh, ex_node) \<and>
   \<not> window ex_node \<and>
   dismiss ex_fresh (JStr ''ok'') ex_node =
     Inl (ReferenceError, ex_fresh\<lparr>result := JStr ''ok'', dismissed := True\<rparr>, ex_node) \<and>
   dismiss (ex_fresh\<lparr>result := JStr ''ok'', dismissed := True\<rparr>) (JStr ''ok'') ex_node =
     Inr (ex_fresh\<lparr>result := JStr ''ok'', dismissed := True\<rparr>, ex_node) \<and>
   closed_count ex_fresh = 0 \<and>
   closed_count (ex_fresh\<lparr>result := JStr ''ok'', dismissed := True\<rparr>) = 0"
  by (simp add: JSAlert_new_def param_default_def ex_fresh_def ex_node_def ex_headless_def
        ex_world_def dismiss.simps removeElements_def queue_remove_def closed_count_def Let_def)

text \<open>
  C2, as the code has it. In a browser, a first call of \<^verbatim>\<open>dismiss\<close> on a dialog that is not yet dismissed sets
  \<^verbatim>\<open>result\<close> to the outcome; the dialog ends up cancelled exactly when the outcome is
  \<^verbatim>\<open>undefined\<close> (no argument) or the cancelled flag was set already; and exactly two
  notifications are emitted, both with the result: \<^verbatim>\<open>"cancelled"\<close> when the dialog is cancelled
  and \<^verbatim>\<open>"complete"\<close> when it is not, and then \<^verbatim>\<open>"closed"\<close>.
\<close>

theorem dismiss_notifies:
  assumes "\<not> dismissed d" and "window w"
  shows "\<exists>d' w'.
     dismiss d outcome w = Inr (d', w') \<and>
     result d' = outcome \<and>
     cancelled d' = (cancelled d \<or> outcome = JUndefined) \<and>
     emissions (trace d') =
       emissions (trace d) @
         [(if cancelled d' then ''cancelled'' else ''complete'', result d'),
          (''closed'', result d')]"
proof -
  let ?d' = "dismissed_state d outcome"
  have "dismiss d outcome w =
        Inr (?d', w\<lparr>popupQueue := queue_remove (popupQueue w) (ident d)\<rparr>)"
    using assms by (rule dismiss_first)
  moreover have "emissions (trace ?d') =
       emissions (trace d) @
         [(if cancelled ?d' then ''cancelled'' else ''complete'', result ?d'),
          (''closed'', result ?d')]"
    by (simp only: emissions_dismissed_state dismissed_state_fields(2,3))
  ultimately show ?thesis
    using dismissed_state_fields(2,3) by blast
qed

theorem dismiss_notifies_witness:
  "\<not> dismissed ex_dialog \<and> window ex_world \<and>
   (\<exists>d' w'.
     dismiss ex_dialog JUndefined ex_world = Inr (d', w') \<and>
     result d' = JUndefined \<and>
     cancelled d' \<and>
     emissions (trace d') = [(''cancelled'', JUndefined), (''closed'', JUndefined)])"
  using dismiss_notifies[of ex_dialog ex_world JUndefined]
  by (auto simp: ex_dialog_def ex_world_def)

text \<open>
  C2, as the claim has it, fails where no window exists: on the dialog \<^verbatim>\<open>new JSAlert("Saved")\<close>,
  not yet dismissed, \<^verbatim>\<open>dismiss()\<close> sets the result and the flags and then raises a
  ReferenceError at \<^verbatim>\<open>window.removeEventListener\<close>: nothing is emitted.
\<close>

theorem dismiss_notifies_counterexample:
  "\<not> dismissed ex_fresh \<and> \<not> window ex_node \<and>
   dismiss ex_fresh JUndefined ex_node =
     Inl (ReferenceError,
          ex_fresh\<lparr>result := JUndefined, cancelled := True, dismissed := True\<rparr>, ex_node) \<and>
   emissions (trace (ex_fresh\<lparr>result := JUndefined, cancelled := True, dismissed := True\<rparr>))
     = []"
  by (simp add: ex_fresh_def ex_node_def ex_headless_def ex_world_def dismiss.simps
        removeElements_def queue_remove_def Let_def)

section \<open>Keyboard events\<close>

lemma calls_append: "calls (xs @ ys) = calls xs @ calls ys"
  by (induction xs rule: calls.induct) simp_all

lemma calls_dismissed_state: "calls (trace (dismissed_state d res)) = calls (trace d)"
  by (simp add: dismissed_state_def calls_append)

lemma first_of_type_index:
  "i < length bs \<Longrightarrow> b_type (bs ! i) = JStr t \<Longrightarrow> \<forall>j<i. b_type (bs ! j) \<noteq> JStr t \<Longrightarrow>
   first_of_type t bs = Some (bs ! i)"
proof (induction bs arbitrary: i)
  case Nil
  then show ?case by simp
next
  case (Cons b bs)
  show ?case
  proof (cases i)
    case 0
    with Cons.prems show ?thesis by simp
  next
    case (Suc n)
    from Cons.prems(3) Suc have "b_type b \<noteq> JStr t" by auto
    moreover from Cons.prems(3) Suc have "\<forall>j<n. b_type (bs ! j) \<noteq> JStr t" by auto
    ultimately show ?thesis using Cons.IH[of n] Cons.prems(1,2) Suc by simp
  qed
qed

lemma first_of_type_none:
  "\<forall>b\<in>set bs. b_type b \<noteq> JStr t \<Longrightarrow> first_of_type t bs = None"
  by (induction bs) simp_all

lemma use_button_first:
  assumes "\<not> dismissed d" and "window w"
  shows "use_button d b w =
         Inr (used_state d b, w\<lparr>popupQueue := queue_remove (popupQueue w) (ident d)\<rparr>)"
  using assms
  by (cases "b_callback b")
     (simp_all add: use_button_def dismiss_first used_state_def Let_def dismissed_state_fields)

lemma used_state_fields:
  "dismissed (used_state d b)"
  "result (used_state d b) = b_value b"
  "cancelled (used_state d b) = (cancelled d \<or> b_value b = JUndefined)"
  "emissions (trace (used_state d b)) =
     emissions (trace d) @
       [(if cancelled d \<or> b_value b = JUndefined then ''cancelled'' else ''complete'', b_value b),
        (''closed'', b_value b)]"
  "calls (trace (used_state d b)) =
     calls (trace d) @ (case b_callback b of Some k \<Rightarrow> [(k, b_value b)] | None \<Rightarrow> [])"
  by (simp_all add: used_state_def Let_def dismissed_state_fields emissions_append
        emissions_dismissed_state calls_append calls_dismissed_state split: option.split)

text \<open>
  C3. The Enter key (key code 13) on a dialog that is not yet dismissed, in a browser. If
  button \<open>i\<close> is the first in the list whose type is \<^verbatim>\<open>"default"\<close>, the dialog is dismissed
  with that button's value: the value is the result and the payload of the notifications.
  If no button has the type \<^verbatim>\<open>"default"\<close>, the dialog is dismissed with no value: the result
  is \<^verbatim>\<open>undefined\<close>, the dialog is cancelled and \<^verbatim>\<open>"cancelled"\<close> is emitted before \<^verbatim>\<open>"closed"\<close>.
\<close>

theorem confirm_trigger:
  assumes "\<not> dismissed d" and "window w"
  shows "(i < length (buttons d) \<and> b_type (buttons d ! i) = JStr ''default'' \<and>
          (\<forall>j<i. b_type (buttons d ! j) \<noteq> JStr ''default'') \<longrightarrow>
            (\<exists>d' w'. handleEvent d 13 w = Inr (d', w') \<and> dismissed d' \<and>
               result d' = b_value (buttons d ! i) \<and>
               cancelled d' = (cancelled d \<or> b_value (buttons d ! i) = JUndefined) \<and>
               emissions (trace d') =
                 emissions (trace d) @
                   [(if cancelled d' then ''cancelled'' else ''complete'', b_value (buttons d ! i)),
                    (''closed'', b_value (buttons d ! i))])) \<and>
         ((\<forall>b\<in>set (buttons d). b_type b \<noteq> JStr ''default'') \<longrightarrow>
            (\<exists>d' w'. handleEvent d 13 w = Inr (d', w') \<and> dismissed d' \<and>
               result d' = JUndefined \<and> cancelled d' \<and>
               emissions (trace d') =
                 emissions (trace d) @ [(''cancelled'', JUndefined), (''closed'', JUndefined)]))"
proof (intro conjI impI)
  assume h: "i < length (buttons d) \<and> b_type (buttons d ! i) = JStr ''default'' \<and>
          (\<forall>j<i. b_type (buttons d ! j) \<noteq> JStr ''default'')"
  let ?b = "buttons d ! i"
  from h have "first_of_type ''default'' (buttons d) = Some ?b"
    by (simp add: first_of_type_index)
  then have "handleEvent d 13 w =
      Inr (used_state d ?b, w\<lparr>popupQueue := queue_remove (popupQueue w) (ident d)\<rparr>)"
    using assms by (simp add: handleEvent_def use_button_first)
  then show "\<exists>d' w'. handleEvent d 13 w = Inr (d', w') \<and> dismissed d' \<and>
               result d' = b_value ?b \<and>
               cancelled d' = (cancelled d \<or> b_value ?b = JUndefined) \<and>
               emissions (trace d') =
                 emissions (trace d) @
                   [(if cancelled d' then ''cancelled'' else ''complete'', b_value ?b),
                    (''closed'', b_value ?b)]"
    by (simp add: used_state_fields)
next
  assume h: "\<forall>b\<in>set (buttons d). b_type b \<noteq> JStr ''default''"
  then have "first_of_type ''default'' (buttons d) = None"
    by (rule first_of_type_none)
  then have "handleEvent d 13 w =
      Inr (dismissed_state (d\<lparr>cancelled := True\<rparr>) JUndefined,
           w\<lparr>popupQueue := queue_remove (popupQueue w) (ident d)\<rparr>)"
    using assms by (simp add: handleEvent_def dismiss_first)
  then show "\<exists>d' w'. handleEvent d 13 w = Inr (d', w') \<and> dismissed d' \<and>
               result d' = JUndefined \<and> cancelled d' \<and>
               emissions (trace d') =
                 emissions (trace d) @ [(''cancelled'', JUndefined), (''closed'', JUndefined)]"
    by (simp add: dismissed_state_fields emissions_dismissed_state)
qed

theorem confirm_trigger_witness:
  "\<not> dismissed ex_dialog \<and> window ex_world \<and>
   map b_type (buttons ex_dialog) = [JStr ''normal'', JStr ''default''] \<and>
   b_value (buttons ex_dialog ! 1) = JStr ''X'' \<and>
   (\<exists>d' w'. handleEvent ex_dialog 13 ex_world = Inr (d', w') \<and> dismissed d' \<and>
      result d' = JStr ''X'' \<and> \<not> cancelled d' \<and>
      emissions (trace d') = [(''complete'', JStr ''X''), (''closed'', JStr ''X'')]) \<and>
   map b_type (buttons ex_plain) = [JStr ''normal''] \<and>
   (\<exists>d' w'. handleEvent ex_plain 13 ex_world = Inr (d', w') \<and> dismissed d' \<and>
      result d' = JUndefined \<and> cancelled d' \<and>
      emissions (trace d') = [(''cancelled'', JUndefined), (''closed'', JUndefined)])"
  using confirm_trigger[of ex_dialog ex_world 1] confirm_trigger[of ex_plain ex_world 0]
  by (auto simp: ex_dialog_def ex_plain_def ex_world_def)

text \<open>
  C4, as the code has it. On the Enter key, in a browser, for a dialog that is not yet
  dismissed whose first button of type \<^verbatim>\<open>"default"\<close> is button \<open>i\<close> with callback \<open>k\<close>: the
  dialog is dismissed with the button's value first, then the callback is called with the
  result as it stands after that dismissal, which is the button's value; it is called once.
\<close>

theorem confirm_trigger_callback:
  assumes "\<not> dismissed d" and "window w"
    and "i < length (buttons d)"
    and "b_type (buttons d ! i) = JStr ''default''"
    and "\<forall>j<i. b_type (buttons d ! j) \<noteq> JStr ''default''"
    and "b_callback (buttons d ! i) = Some k"
  shows "\<exists>d1 w1. dismiss d (b_value (buttons d ! i)) w = Inr (d1, w1) \<and>
           result d1 = b_value (buttons d ! i) \<and>
           handleEvent d 13 w =
             Inr (d1\<lparr>trace := trace d1 @ [PreventDefault, Called k (result d1)]\<rparr>, w1) \<and>
           calls (trace d1 @ [PreventDefault, Called k (result d1)]) =
             calls (trace d) @ [(k, b_value (buttons d ! i))]"
proof -
  let ?b = "buttons d ! i"
  let ?d1 = "dismissed_state d (b_value ?b)"
  let ?w1 = "w\<lparr>popupQueue := queue_remove (popupQueue w) (ident d)\<rparr>"
  have dis: "dismiss d (b_value ?b) w = Inr (?d1, ?w1)"
    using assms(1,2) by (rule dismiss_first)
  have "first_of_type ''default'' (buttons d) = Some ?b"
    using assms(3-5) by (simp add: first_of_type_index)
  then have "handleEvent d 13 w =
      Inr (?d1\<lparr>trace := trace ?d1 @ [PreventDefault, Called k (result ?d1)]\<rparr>, ?w1)"
    using assms(6) dis by (simp add: handleEvent_def use_button_def dismissed_state_fields)
  moreover have "calls (trace ?d1 @ [PreventDefault, Called k (result ?d1)]) =
             calls (trace d) @ [(k, b_value ?b)]"
    by (simp add: calls_append calls_dismissed_state dismissed_state_fields)
  ultimately show ?thesis
    using dis dismissed_state_fields(2) by blast
qed

theorem confirm_trigger_callback_witness:
  "\<not> dismissed ex_dialog \<and> window ex_world \<and>
   b_type (buttons ex_dialog ! 1) = JStr ''default'' \<and>
   b_callback (buttons ex_dialog ! 1) = Some 1 \<and>
   (\<exists>d1 w1. dismiss ex_dialog (JStr ''X'') ex_world = Inr (d1, w1) \<and>
      result d1 = JStr ''X'' \<and>
      handleEvent ex_dialog 13 ex_world =
        Inr (d1\<lparr>trace := trace d1 @ [PreventDefault, Called 1 (JStr ''X'')]\<rparr>, w1))"
  using confirm_trigger_callback[of ex_dialog ex_world 1 1]
  by (auto simp: ex_dialog_def ex_world_def)

text \<open>
  C4, as the claim has it, fails: the example dialog holds the result \<^verbatim>\<open>false\<close> before the
  Enter key, and the callback of its default button is called with \<^verbatim>\<open>"X"\<close>, the button's
  value, not with \<^verbatim>\<open>false\<close>.
\<close>

theorem confirm_trigger_callback_counterexample:
  "result ex_dialog = JBool False \<and>
   handleEvent ex_dialog 13 ex_world =
     Inr (ex_dialog\<lparr>result := JStr ''X'', dismissed := True, keydown := False,
            trace := [ElementsRemoved, Emitted ''complete'' (JStr ''X''),
                      Emitted ''closed'' (JStr ''X''), PreventDefault,
                      Called 1 (JStr ''X'')]\<rparr>,
          ex_world\<lparr>popupQueue := []\<rparr>) \<and>
   JStr ''X'' \<noteq> JBool False"
  by (simp add: ex_dialog_def ex_world_def handleEvent_def use_button_def dismiss.simps
        emit.simps removeElements_def queue_remove_def Let_def)

lemma escape_state:
  "d\<lparr>cancelled := True, result := JNull\<rparr> = d\<lparr>result := JNull, cancelled := True\<rparr>"
  by simp

text \<open>
  C5. The Escape key (key code 27). If \<^verbatim>\<open>cancelable\<close> is false (or any falsy value), the
  state is unchanged and nothing is emitted. Otherwise \<^verbatim>\<open>cancelled\<close> is set to true and
  \<^verbatim>\<open>result\<close> to \<^verbatim>\<open>null\<close>, which is what remains where the dialog was dismissed already
  and \<^verbatim>\<open>dismiss\<close> does nothing. For a dialog that is not yet dismissed, in a browser: if button \<open>i\<close> is the first in the list whose type is
  \<^verbatim>\<open>"cancel"\<close>, the dialog is dismissed with that button's value and is cancelled,
  \<^verbatim>\<open>"cancelled"\<close> and \<^verbatim>\<open>"closed"\<close> are emitted with the value, and the button's callback, if it
  has one, is called; if no button has the type \<^verbatim>\<open>"cancel"\<close>, the dialog is dismissed with
  no value and is cancelled.
\<close>

theorem cancel_trigger:
  "(\<not> truthy (cancelable d) \<longrightarrow> handleEvent d 27 w = Inr (d, w)) \<and>
   (truthy (cancelable d) \<and> dismissed d \<longrightarrow>
      (\<exists>d'. handleEvent d 27 w = Inr (d', w) \<and> cancelled d' \<and> result d' = JNull \<and>
         emissions (trace d') = emissions (trace d))) \<and>
   (truthy (cancelable d) \<and> \<not> dismissed d \<and> window w \<longrightarrow>
      (i < length (buttons d) \<and> b_type (buttons d ! i) = JStr ''cancel'' \<and>
       (\<forall>j<i. b_type (buttons d ! j) \<noteq> JStr ''cancel'') \<longrightarrow>
         (\<exists>d' w'. handleEvent d 27 w = Inr (d', w') \<and> dismissed d' \<and> cancelled d' \<and>
            result d' = b_value (buttons d ! i) \<and>
            emissions (trace d') =
              emissions (trace d) @
                [(''cancelled'', b_value (buttons d ! i)), (''closed'', b_value (buttons d ! i))] \<and>
            calls (trace d') =
              calls (trace d) @
                (case b_callback (buttons d ! i) of
                   Some k \<Rightarrow> [(k, b_value (buttons d ! i))] | None \<Rightarrow> []))) \<and>
      ((\<forall>b\<in>set (buttons d). b_type b \<noteq> JStr ''cancel'') \<longrightarrow>
         (\<exists>d' w'. handleEvent d 27 w = Inr (d', w') \<and> dismissed d' \<and> cancelled d' \<and>
            result d' = JUndefined \<and>
            emissions (trace d') =
              emissions (trace d) @ [(''cancelled'', JUndefined), (''closed'', JUndefined)] \<and>
            calls (trace d') = calls (trace d))))"
proof (intro conjI impI)
  assume "\<not> truthy (cancelable d)"
  then show "handleEvent d 27 w = Inr (d, w)" by (simp add: handleEvent_def)
next
  assume a: "truthy (cancelable d) \<and> dismissed d"
  show "\<exists>d'. handleEvent d 27 w = Inr (d', w) \<and> cancelled d' \<and> result d' = JNull \<and>
         emissions (trace d') = emissions (trace d)"
  proof (cases "first_of_type ''cancel'' (buttons d)")
    case None
    with a show ?thesis
      by (simp add: handleEvent_def dismiss_dismissed)
  next
    case (Some b)
    with a show ?thesis
      by (cases "b_callback b")
         (simp_all add: handleEvent_def use_button_def dismiss_dismissed emissions_append)
  qed
next
  assume a: "truthy (cancelable d) \<and> \<not> dismissed d \<and> window w"
    and h: "i < length (buttons d) \<and> b_type (buttons d ! i) = JStr ''cancel'' \<and>
       (\<forall>j<i. b_type (buttons d ! j) \<noteq> JStr ''cancel'')"
  let ?b = "buttons d ! i"
  let ?d0 = "d\<lparr>result := JNull, cancelled := True\<rparr>"
  from h have "first_of_type ''cancel'' (buttons d) = Some ?b"
    by (simp add: first_of_type_index)
  then have "handleEvent d 27 w =
      Inr (used_state ?d0 ?b, w\<lparr>popupQueue := queue_remove (popupQueue w) (ident d)\<rparr>)"
    using a by (simp add: handleEvent_def use_button_first escape_state)
  then show "\<exists>d' w'. handleEvent d 27 w = Inr (d', w') \<and> dismissed d' \<and> cancelled d' \<and>
            result d' = b_value ?b \<and>
            emissions (trace d') =
              emissions (trace d) @ [(''cancelled'', b_value ?b), (''closed'', b_value ?b)] \<and>
            calls (trace d') =
              calls (trace d) @
                (case b_callback ?b of Some k \<Rightarrow> [(k, b_value ?b)] | None \<Rightarrow> [])"
    by (simp add: used_state_fields)
next
  assume a: "truthy (cancelable d) \<and> \<not> dismissed d \<and> window w"
    and h: "\<forall>b\<in>set (buttons d). b_type b \<noteq> JStr ''cancel''"
  let ?d0 = "d\<lparr>result := JNull, cancelled := True\<rparr>"
  from h have "first_of_type ''cancel'' (buttons d) = None"
    by (rule first_of_type_none)
  then have "handleEvent d 27 w =
      Inr (dismissed_state ?d0 JUndefined,
           w\<lparr>popupQueue := queue_remove (popupQueue w) (ident d)\<rparr>)"
    using a by (simp add: handleEvent_def dismiss_first)
  then show "\<exists>d' w'. handleEvent d 27 w = Inr (d', w') \<and> dismissed d' \<and> cancelled d' \<and>
            result d' = JUndefined \<and>
            emissions (trace d') =
              emissions (trace d) @ [(''cancelled'', JUndefined), (''closed'', JUndefined)] \<and>
            calls (trace d') = calls (trace d)"
    by (simp add: dismissed_state_fields emissions_dismissed_state calls_dismissed_state)
qed

theorem cancel_trigger_witness:
  "handleEvent (ex_cancel\<lparr>cancelable := JBool False\<rparr>) 27 ex_world =
     Inr (ex_cancel\<lparr>cancelable := JBool False\<rparr>, ex_world) \<and>
   (\<exists>d'. handleEvent (ex_plain\<lparr>dismissed := True\<rparr>) 27 ex_world = Inr (d', ex_world) \<and>
      cancelled d' \<and> result d' = JNull \<and> emissions (trace d') = []) \<and>
   truthy (cancelable ex_cancel) \<and> \<not> dismissed ex_cancel \<and> window ex_world \<and>
   map b_type (buttons ex_cancel) = [JStr ''normal'', JStr ''default'', JStr ''cancel''] \<and>
   (\<exists>d' w'. handleEvent ex_cancel 27 ex_world = Inr (d', w') \<and> dismissed d' \<and>
      cancelled d' \<and> result d' = JStr ''B'' \<and>
      emissions (trace d') = [(''cancelled'', JStr ''B''), (''closed'', JStr ''B'')] \<and>
      calls (trace d') = [(2, JStr ''B'')]) \<and>
   map b_type (buttons ex_plain) = [JStr ''normal''] \<and>
   (\<exists>d' w'. handleEvent ex_plain 27 ex_world = Inr (d', w') \<and> dismissed d' \<and>
      cancelled d' \<and> result d' = JUndefined \<and>
      emissions (trace d') = [(''cancelled'', JUndefined), (''closed'', JUndefined)] \<and>
      calls (trace d') = [])"
  using cancel_trigger[of "ex_cancel\<lparr>cancelable := JBool False\<rparr>" ex_world 0]
    cancel_trigger[of "ex_plain\<lparr>dismissed := True\<rparr>" ex_world 0]
    cancel_trigger[of ex_cancel ex_world 2] cancel_trigger[of ex_plain ex_world 0]
  by (auto simp: ex_dialog_def ex_plain_def ex_cancel_def ex_world_def nth_Cons'
        less_Suc_eq numeral_2_eq_2)

section \<open>Timed dismissal\<close>

text \<open>
  C10, as the code has it. \<^verbatim>\<open>dismissIn\<close> returns the dialog unchanged and adds one timer. When that timer runs, in
  a browser, on the dialog not yet dismissed (in whatever state \<open>d1\<close> it is by then), the
  dialog is dismissed as a cancellation: the result is \<^verbatim>\<open>undefined\<close>, the dialog is
  cancelled, and \<^verbatim>\<open>"cancelled"\<close> and then \<^verbatim>\<open>"closed"\<close> are emitted, never \<^verbatim>\<open>"complete"\<close>.
\<close>

theorem dismissIn_cancels:
  "\<exists>t. dismissIn d time w = (d, w\<lparr>timers := timers w @ [t]\<rparr>) \<and>
     (\<forall>d1 w1. ident d1 = ident d \<and> \<not> dismissed d1 \<and> window w1 \<longrightarrow>
        (\<exists>d' w'. run_timer t d1 w1 = Inr (d', w') \<and> dismissed d' \<and>
           result d' = JUndefined \<and> cancelled d' \<and>
           emissions (trace d') =
             emissions (trace d1) @ [(''cancelled'', JUndefined), (''closed'', JUndefined)]))"
proof -
  let ?t = "\<lparr>t_target = ident d, t_delay = time\<rparr>"
  have "dismissIn d time w = (d, w\<lparr>timers := timers w @ [?t]\<rparr>)"
    by (simp add: dismissIn_def)
  moreover have "\<forall>d1 w1. ident d1 = ident d \<and> \<not> dismissed d1 \<and> window w1 \<longrightarrow>
        (\<exists>d' w'. run_timer ?t d1 w1 = Inr (d', w') \<and> dismissed d' \<and>
           result d' = JUndefined \<and> cancelled d' \<and>
           emissions (trace d') =
             emissions (trace d1) @ [(''cancelled'', JUndefined), (''closed'', JUndefined)])"
    by (simp add: run_timer_def dismiss_first dismissed_state_fields emissions_dismissed_state)
  ultimately show ?thesis by blast
qed

theorem dismissIn_cancels_witness:
  "\<exists>t. dismissIn ex_dialog (JStr ''3000'') ex_world =
          (ex_dialog, ex_world\<lparr>timers := [t]\<rparr>) \<and>
     \<not> dismissed ex_dialog \<and> window ex_world \<and>
     (\<exists>d' w'. run_timer t ex_dialog ex_world = Inr (d', w') \<and> dismissed d' \<and>
        result d' = JUndefined \<and> cancelled d' \<and>
        emissions (trace d') = [(''cancelled'', JUndefined), (''closed'', JUndefined)])"
proof -
  from dismissIn_cancels[of ex_dialog "JStr ''3000''" ex_world]
  obtain t where t: "dismissIn ex_dialog (JStr ''3000'') ex_world =
                       (ex_dialog, ex_world\<lparr>timers := timers ex_world @ [t]\<rparr>)"
    and r: "\<forall>d1 w1. ident d1 = ident ex_dialog \<and> \<not> dismissed d1 \<and> window w1 \<longrightarrow>
        (\<exists>d' w'. run_timer t d1 w1 = Inr (d', w') \<and> dismissed d' \<and>
           result d' = JUndefined \<and> cancelled d' \<and>
           emissions (trace d') =
             emissions (trace d1) @ [(''cancelled'', JUndefined), (''closed'', JUndefined)])"
    by blast
  have h: "ident ex_dialog = ident ex_dialog \<and> \<not> dismissed ex_dialog \<and> window ex_world"
    by (simp add: ex_dialog_def ex_world_def)
  have e: "emissions (trace ex_dialog) = []" and ts: "timers ex_world = []"
    by (simp_all add: ex_dialog_def ex_world_def)
  from r h have "\<exists>d' w'. run_timer t ex_dialog ex_world = Inr (d', w') \<and> dismissed d' \<and>
           result d' = JUndefined \<and> cancelled d' \<and>
           emissions (trace d') =
             emissions (trace ex_dialog) @ [(''cancelled'', JUndefined), (''closed'', JUndefined)]"
    by blast
  with t h e ts show ?thesis by auto
qed

text \<open>
  C10, as the claim has it, fails where no window exists: the timer \<^verbatim>\<open>dismissIn\<close> sets for
  the dialog \<^verbatim>\<open>new JSAlert("Saved")\<close> calls \<^verbatim>\<open>dismiss()\<close>, which raises a ReferenceError at
  \<^verbatim>\<open>window.removeEventListener\<close>: neither \<^verbatim>\<open>"cancelled"\<close> nor \<^verbatim>\<open>"closed"\<close> is emitted.
\<close>

theorem dismissIn_cancels_counterexample:
  "dismissIn ex_fresh (JStr ''3000'') ex_node = (ex_fresh, ex_node\<lparr>timers := [ex_timer]\<rparr>) \<and>
   \<not> dismissed ex_fresh \<and> \<not> window ex_node \<and>
   run_timer ex_timer ex_fresh ex_node =
     Inl (ReferenceError,
          ex_fresh\<lparr>result := JUndefined, cancelled := True, dismissed := True\<rparr>, ex_node) \<and>
   emissions (trace (ex_fresh\<lparr>result := JUndefined, cancelled := True, dismissed := True\<rparr>))
     = []"
  by (simp add: dismissIn_def run_timer_def ex_timer_def ex_fresh_def ex_node_def
        ex_headless_def ex_world_def dismiss.simps removeElements_def queue_remove_def Let_def)

section \<open>Buttons\<close>

text \<open>
  C6. \<^verbatim>\<open>addButton\<close> changes the list of buttons only, by appending one button at its end.
  Without a type (the argument is \<^verbatim>\<open>undefined\<close>, or any falsy value) the new button's type is
  \<^verbatim>\<open>"default"\<close> when the list was empty at the call and \<^verbatim>\<open>"normal"\<close> otherwise; without a
  value (the argument is \<^verbatim>\<open>undefined\<close>) its value is its text.
\<close>

theorem addButton_defaults:
  "\<exists>b. addButton d label v role = d\<lparr>buttons := buttons d @ [b]\<rparr> \<and>
       b_text b = label \<and>
       (\<not> truthy role \<longrightarrow>
          b_type b = (if buttons d = [] then JStr ''default'' else JStr ''normal'')) \<and>
       (v = JUndefined \<longrightarrow> b_value b = label) \<and>
       (v \<noteq> JUndefined \<longrightarrow> b_value b = v)"
proof -
  let ?b = "\<lparr>b_text = label,
             b_value = (if v = JUndefined then label else v),
             b_type = js_or role (if length (buttons d) = 0 then JStr ''default''
                                  else JStr ''normal''),
             b_callback = Some (length (buttons d))\<rparr>"
  have "addButton d label v role = d\<lparr>buttons := buttons d @ [?b]\<rparr>"
    by (simp add: addButton_def)
  moreover have "b_text ?b = label" by simp
  moreover have "\<not> truthy role \<longrightarrow>
          b_type ?b = (if buttons d = [] then JStr ''default'' else JStr ''normal'')"
    by (simp add: js_or_def)
  moreover have "(v = JUndefined \<longrightarrow> b_value ?b = label) \<and>
                 (v \<noteq> JUndefined \<longrightarrow> b_value ?b = v)"
    by simp
  ultimately show ?thesis by blast
qed

theorem addButton_defaults_witness:
  "\<not> truthy JUndefined \<and>
   map b_type (buttons (addButton (ex_dialog\<lparr>buttons := []\<rparr>) (JStr ''OK'') JUndefined JUndefined))
     = [JStr ''default''] \<and>
   map b_value (buttons (addButton (ex_dialog\<lparr>buttons := []\<rparr>) (JStr ''OK'') JUndefined JUndefined))
     = [JStr ''OK''] \<and>
   map b_type (buttons (addButton ex_dialog (JStr ''Help'') JUndefined JUndefined))
     = [JStr ''normal'', JStr ''default'', JStr ''normal''] \<and>
   map b_value (buttons (addButton ex_dialog (JStr ''Help'') JUndefined JUndefined))
     = [JStr ''N'', JStr ''X'', JStr ''Help'']"
  using addButton_defaults[of "ex_dialog\<lparr>buttons := []\<rparr>" "JStr ''OK''" JUndefined JUndefined]
    addButton_defaults[of ex_dialog "JStr ''Help''" JUndefined JUndefined]
  by (auto simp: ex_dialog_def)

section \<open>The constructors without a window\<close>

text \<open>
  C7. Where no window exists, each of \<^verbatim>\<open>alert\<close>, \<^verbatim>\<open>confirm\<close>, \<^verbatim>\<open>prompt\<close> and \<^verbatim>\<open>loader\<close>
  returns a promise that is already resolved (with \<^verbatim>\<open>undefined\<close>, the value of
  \<^verbatim>\<open>console.log\<close>), and changes nothing but the console, where it logs one line: no dialog is
  created, nothing is added to the queue, and no error is raised.
\<close>

theorem headless_constructors:
  assumes "\<not> window w"
  shows "alert text0 title0 icon closeText w =
           (ResolvedPromise JUndefined, w\<lparr>console := console w @ [''Alert: '' @ toString text0]\<rparr>) \<and>
         confirm text0 title0 icon acceptText rejectText w =
           (ResolvedPromise JUndefined, w\<lparr>console := console w @ [''Alert: '' @ toString text0]\<rparr>) \<and>
         prompt text0 defaultText placeholderText title0 icon acceptText rejectText w =
           (ResolvedPromise JUndefined, w\<lparr>console := console w @ [''Alert: '' @ toString text0]\<rparr>) \<and>
         loader text0 cancelable0 w =
           (ResolvedPromise JUndefined,
            w\<lparr>console := console w @ [''Loading: '' @ toString text0]\<rparr>) \<and>
         settled (ResolvedPromise JUndefined) = Some (Inr JUndefined) \<and>
         popupQueue (w\<lparr>console := console w @ [line]\<rparr>) = popupQueue w \<and>
         next_id (w\<lparr>console := console w @ [line]\<rparr>) = next_id w"
  using assms by (simp add: alert_def confirm_def prompt_def loader_def)

theorem headless_constructors_witness:
  "\<not> window ex_headless \<and>
   alert (JStr ''Saved'') JUndefined JUndefined JUndefined ex_headless =
     (ResolvedPromise JUndefined, ex_headless\<lparr>console := [''Alert: Saved'']\<rparr>) \<and>
   confirm (JStr ''Sure?'') JUndefined JUndefined JUndefined JUndefined ex_headless =
     (ResolvedPromise JUndefined, ex_headless\<lparr>console := [''Alert: Sure?'']\<rparr>) \<and>
   prompt (JStr ''Name?'') JUndefined JUndefined JUndefined JUndefined JUndefined JUndefined
       ex_headless =
     (ResolvedPromise JUndefined, ex_headless\<lparr>console := [''Alert: Name?'']\<rparr>) \<and>
   loader (JStr ''Wait'') JUndefined ex_headless =
     (ResolvedPromise JUndefined, ex_headless\<lparr>console := [''Loading: Wait'']\<rparr>) \<and>
   popupQueue (ex_headless\<lparr>console := [''Alert: Saved'']\<rparr>) = [7]"
  using headless_constructors[of ex_headless "JStr ''Saved''" JUndefined JUndefined JUndefined
      JUndefined JUndefined JUndefined JUndefined JUndefined "''Alert: Saved''"]
    headless_constructors[of ex_headless "JStr ''Sure?''" JUndefined JUndefined JUndefined
      JUndefined JUndefined JUndefined JUndefined JUndefined "''Alert: Saved''"]
    headless_constructors[of ex_headless "JStr ''Name?''" JUndefined JUndefined JUndefined
      JUndefined JUndefined JUndefined JUndefined JUndefined "''Alert: Saved''"]
    headless_constructors[of ex_headless "JStr ''Wait''" JUndefined JUndefined JUndefined
      JUndefined JUndefined JUndefined JUndefined JUndefined "''Alert: Saved''"]
  by (simp add: ex_headless_def ex_world_def)

section \<open>The dialogs of the constructors\<close>

lemma prompt_browser:
  "window w \<Longrightarrow>
   prompt text0 defaultText placeholderText title0 icon acceptText rejectText w =
     (ClosedThen (prompt_dialog text0 defaultText placeholderText title0 icon acceptText rejectText w),
      w\<lparr>popupQueue := queue_add (popupQueue w) (next_id w), next_id := Suc (next_id w)\<rparr>)"
  by (simp add: prompt_def prompt_dialog_def JSAlert_new_def addButton_def setIcon_def
        addTextField_def show_js_def js_or_def Let_def)

lemma show_admitted_quiet:
  "window w \<Longrightarrow> handlers d = [] \<Longrightarrow>
   show_admitted d w =
     Inr ((createPopup d w)\<lparr>keydown := True, trace := trace d @ [Emitted ''opened'' JUndefined]\<rparr>, w)"
  by (simp add: show_admitted_def private_show_def emit.simps createPopup_def)


lemma first_emitted_append:
  "first_emitted n (xs @ ys) =
     (case first_emitted n xs of None \<Rightarrow> first_emitted n ys | Some p \<Rightarrow> Some p)"
  by (induction xs rule: first_emitted.induct) simp_all

lemma first_emitted_dismissed_state:
  "first_emitted ''closed'' (trace (dismissed_state d res)) =
     (case first_emitted ''closed'' (trace d) of None \<Rightarrow> Some res | Some p \<Rightarrow> Some p)"
  by (simp add: dismissed_state_def first_emitted_append split: option.split)

lemma first_emitted_used_state:
  "first_emitted ''closed'' (trace (used_state d b)) =
     (case first_emitted ''closed'' (trace d) of None \<Rightarrow> Some (b_value b) | Some p \<Rightarrow> Some p)"
  by (simp add: used_state_def Let_def first_emitted_append first_emitted_dismissed_state
        split: option.split)

lemma getTextFieldValue_dismissed_state:
  "getTextFieldValue (dismissed_state d res) i = getTextFieldValue d i"
  by (simp add: getTextFieldValue_def dismissed_state_fields)

lemma getTextFieldValue_used_state:
  "getTextFieldValue (used_state d b) i = getTextFieldValue d i"
  by (simp add: getTextFieldValue_def used_state_def Let_def dismissed_state_fields)

lemma pressed_state_kept:
  "dismissed (pressed_state d b) = dismissed d"
  "ident (pressed_state d b) = ident d"
  by (simp_all add: pressed_state_def Let_def split: option.split)

lemma button_pressed_first:
  assumes "\<not> dismissed d" and "window w"
  shows "button_pressed d b w =
         Inr (dismissed_state (pressed_state d b) (b_value b),
              w\<lparr>popupQueue := queue_remove (popupQueue w) (ident d)\<rparr>)"
proof -
  have "button_pressed d b w = dismiss (pressed_state d b) (b_value b) w"
    by (simp add: button_pressed_def pressed_state_def Let_def)
  then show ?thesis
    using assms by (simp add: dismiss_first pressed_state_kept)
qed

lemma pressed_state_fields:
  "cancelled (pressed_state d b) = (cancelled d \<or> b_type b = JStr ''cancel'')"
  "textFields (pressed_state d b) = textFields d"
  "emissions (trace (pressed_state d b)) = emissions (trace d)"
  "first_emitted n (trace (pressed_state d b)) = first_emitted n (trace d)"
  by (simp_all add: pressed_state_def Let_def emissions_append first_emitted_append
        split: option.split)

lemma getTextFieldValue_pressed_state:
  "getTextFieldValue (pressed_state d b) i = getTextFieldValue d i"
  by (simp add: getTextFieldValue_def pressed_state_fields)

text \<open>
  C8. The promise \<^verbatim>\<open>prompt\<close> returns, in a browser. It is pending when \<^verbatim>\<open>prompt\<close> returns and
  when the dialog has been shown. With the text field holding \<open>s\<close> (what the user typed), each
  way of accepting the dialog (the Enter key, a press on the accept button, Enter in the text
  field) closes it with the cancelled flag false and the promise resolves to \<open>s\<close>, the field's
  current value; each way of cancelling it (the Escape key, a press on the reject button, a press
  on the backdrop) closes it with the cancelled flag true and the promise resolves to \<^verbatim>\<open>null\<close>.
  \<open>wa\<close> is the world when the queue admits the dialog and \<open>we\<close> the world at the event.
\<close>

theorem prompt_round_trip:
  assumes "window w" and "window wa" and "window we"
  shows "\<exists>a w1 a2.
     prompt text0 defaultText placeholderText title0 icon acceptText rejectText w = (ClosedThen a, w1) \<and>
     settled (ClosedThen a) = None \<and>
     show_admitted a wa = Inr (a2, wa) \<and>
     settled (ClosedThen a2) = None \<and>
     getTextFieldValue (typed a2 0 s) 0 = Inr (JStr s) \<and>
     (\<forall>r \<in> {handleEvent (typed a2 0 s) 13 we,
              button_pressed (typed a2 0 s) (buttons a2 ! 0) we,
              field_keypress (typed a2 0 s) 0 13 we}.
        \<exists>a3 w3. r = Inr (a3, w3) \<and> \<not> cancelled a3 \<and>
           settled (ClosedThen a3) = Some (Inr (JStr s))) \<and>
     (\<forall>r \<in> {handleEvent (typed a2 0 s) 27 we,
              button_pressed (typed a2 0 s) (buttons a2 ! 1) we,
              container_pressed (typed a2 0 s) we}.
        \<exists>a3 w3. r = Inr (a3, w3) \<and> cancelled a3 \<and>
           settled (ClosedThen a3) = Some (Inr JNull))"
proof -
  define a where
    "a = prompt_dialog text0 defaultText placeholderText title0 icon acceptText rejectText w"
  define a2 where
    "a2 = (createPopup a wa)\<lparr>keydown := True, trace := trace a @ [Emitted ''opened'' JUndefined]\<rparr>"
  define a3 where "a3 = typed a2 0 s"
  have p: "prompt text0 defaultText placeholderText title0 icon acceptText rejectText w =
     (ClosedThen a,
      w\<lparr>popupQueue := queue_add (popupQueue w) (next_id w), next_id := Suc (next_id w)\<rparr>)"
    unfolding a_def using assms(1) by (rule prompt_browser)
  have s0: "settled (ClosedThen a) = None"
    by (simp add: a_def prompt_dialog_def)
  have sh: "show_admitted a wa = Inr (a2, wa)"
    unfolding a2_def using assms(2) by (simp add: show_admitted_quiet a_def prompt_dialog_def)
  have s2: "settled (ClosedThen a2) = None"
    by (simp add: a2_def a_def prompt_dialog_def createPopup_def)
  have f: "\<not> dismissed a3" "\<not> cancelled a3" "truthy (cancelable a3)"
    "trace a3 = [Emitted ''opened'' JUndefined]"
    "map b_type (buttons a3) = [JStr ''default'', JStr ''cancel'']"
    "map b_value (buttons a3) = [JBool True, JBool False]"
    "length (textFields a3) = 1"
    "buttons a3 = buttons a2"
    by (simp_all add: a3_def typed_def a2_def a_def prompt_dialog_def createPopup_def)
  have g: "getTextFieldValue a3 0 = Inr (JStr s)"
    by (simp add: a3_def typed_def a2_def a_def prompt_dialog_def createPopup_def
          getTextFieldValue_def)
  have b0: "buttons a3 ! 0 = \<lparr>b_text = param_default acceptText (JStr ''OK''),
       b_value = JBool True, b_type = JStr ''default'', b_callback = Some 0\<rparr>"
    and b1: "buttons a3 ! Suc 0 = \<lparr>b_text = param_default rejectText (JStr ''Cancel''),
       b_value = JBool False, b_type = JStr ''cancel'', b_callback = Some 1\<rparr>"
    and bs: "buttons a3 = [buttons a3 ! 0, buttons a3 ! Suc 0]"
    by (simp_all add: a3_def typed_def a2_def a_def prompt_dialog_def createPopup_def)
  let ?we' = "we\<lparr>popupQueue := queue_remove (popupQueue we) (ident a3)\<rparr>"
  have fe: "first_emitted ''closed'' (trace a3) = None"
    by (simp add: f(4))
  have fd: "first_of_type ''default'' (buttons a3) = Some (buttons a3 ! 0)"
    by (subst bs) (simp add: b0)
  have fc: "first_of_type ''cancel'' (buttons a3) = Some (buttons a3 ! Suc 0)"
    by (subst bs) (simp add: b0 b1)
  have e1: "\<exists>a4 w4. handleEvent a3 13 we = Inr (a4, w4) \<and> \<not> cancelled a4 \<and>
           settled (ClosedThen a4) = Some (Inr (JStr s))"
    using f(1,2) assms(3) fd g fe
    by (simp add: handleEvent_def use_button_first used_state_fields b0 first_emitted_used_state
          prompt_then_def getTextFieldValue_used_state)
  have e2: "\<exists>a4 w4. button_pressed a3 (buttons a3 ! 0) we = Inr (a4, w4) \<and> \<not> cancelled a4 \<and>
           settled (ClosedThen a4) = Some (Inr (JStr s))"
    using f(1,2) assms(3) g fe
    by (simp add: button_pressed_first dismissed_state_fields pressed_state_fields b0
          first_emitted_dismissed_state prompt_then_def getTextFieldValue_dismissed_state
          getTextFieldValue_pressed_state)
  have e3: "\<exists>a4 w4. field_keypress a3 0 13 we = Inr (a4, w4) \<and> \<not> cancelled a4 \<and>
           settled (ClosedThen a4) = Some (Inr (JStr s))"
    using f(1,2,7) assms(3) g fe
    by (simp add: field_keypress_def dismiss_first dismissed_state_fields
          first_emitted_dismissed_state prompt_then_def getTextFieldValue_dismissed_state)
  have e4: "\<exists>a4 w4. handleEvent a3 27 we = Inr (a4, w4) \<and> cancelled a4 \<and>
           settled (ClosedThen a4) = Some (Inr JNull)"
    using f(1,3) assms(3) fc fe
    by (simp add: handleEvent_def use_button_first used_state_fields
          first_emitted_used_state prompt_then_def)
  have e5: "\<exists>a4 w4. button_pressed a3 (buttons a3 ! 1) we = Inr (a4, w4) \<and> cancelled a4 \<and>
           settled (ClosedThen a4) = Some (Inr JNull)"
    using f(1) assms(3) fe
    by (simp add: button_pressed_first dismissed_state_fields pressed_state_fields b1
          first_emitted_dismissed_state prompt_then_def)
  have e6: "\<exists>a4 w4. container_pressed a3 we = Inr (a4, w4) \<and> cancelled a4 \<and>
           settled (ClosedThen a4) = Some (Inr JNull)"
    using f(1,3) assms(3) fe
    by (simp add: container_pressed_def dismiss_first dismissed_state_fields
          first_emitted_dismissed_state prompt_then_def)
  from p s0 sh s2 g e1 e2 e3 e4 e5 e6 show ?thesis
    by (simp add: a3_def[symmetric] f(8)[symmetric])
qed


theorem prompt_round_trip_witness:
  "window ex_browser \<and> window ex_shown \<and>
   (\<exists>a a2.
     prompt (JStr ''q'') (JStr ''default'') (JStr ''ph'') (JStr ''t'') JUndefined JUndefined
       JUndefined ex_browser = (ClosedThen a, ex_shown) \<and>
     show_admitted a ex_shown = Inr (a2, ex_shown) \<and>
     getTextFieldValue a2 0 = Inr (JStr ''default'') \<and>
     (\<exists>a3 w3. handleEvent (typed a2 0 ''answer'') 13 ex_shown = Inr (a3, w3) \<and>
        settled (ClosedThen a3) = Some (Inr (JStr ''answer''))) \<and>
     (\<exists>a3 w3. handleEvent (typed a2 0 ''answer'') 27 ex_shown = Inr (a3, w3) \<and>
        settled (ClosedThen a3) = Some (Inr JNull)))"
proof -
  have w: "window ex_browser" "window ex_shown"
    by (simp_all add: ex_browser_def ex_shown_def ex_world_def)
  from prompt_round_trip[OF w(1) w(2) w(2), of "JStr ''q''" "JStr ''default''" "JStr ''ph''"
      "JStr ''t''" JUndefined JUndefined JUndefined "''answer''"]
  obtain a w1 a2 where
    p: "prompt (JStr ''q'') (JStr ''default'') (JStr ''ph'') (JStr ''t'') JUndefined JUndefined
       JUndefined ex_browser = (ClosedThen a, w1)"
    and sh: "show_admitted a ex_shown = Inr (a2, ex_shown)"
    and e1: "\<exists>a3 w3. handleEvent (typed a2 0 ''answer'') 13 ex_shown = Inr (a3, w3) \<and>
        \<not> cancelled a3 \<and> settled (ClosedThen a3) = Some (Inr (JStr ''answer''))"
    and e2: "\<exists>a3 w3. handleEvent (typed a2 0 ''answer'') 27 ex_shown = Inr (a3, w3) \<and>
        cancelled a3 \<and> settled (ClosedThen a3) = Some (Inr JNull)"
    by auto
  have w1: "w1 = ex_shown"
    using p by (simp add: prompt_browser w(1)) (simp add: ex_shown_def ex_browser_def ex_world_def queue_add_def)
  have a: "a = prompt_dialog (JStr ''q'') (JStr ''default'') (JStr ''ph'') (JStr ''t'') JUndefined JUndefined JUndefined ex_browser"
    using p by (simp add: prompt_browser w(1))
  have g: "getTextFieldValue a2 0 = Inr (JStr ''default'')"
    using sh w(2) unfolding a
    by (simp add: show_admitted_quiet prompt_dialog_def createPopup_def getTextFieldValue_def
          js_or_def)
       (auto simp: ex_shown_def ex_browser_def ex_world_def strip_newlines_def)
  from p sh e1 e2 g w show ?thesis unfolding w1 by blast
qed


lemma alert_browser:
  "window w \<Longrightarrow>
   alert text0 title0 icon closeText w =
     (Instance (alert_dialog text0 title0 icon closeText w),
      w\<lparr>popupQueue := queue_add (popupQueue w) (next_id w), next_id := Suc (next_id w)\<rparr>)"
  by (simp add: alert_def alert_dialog_def JSAlert_new_def addButton_def setIcon_def
        show_js_def js_or_def Let_def)

text \<open>
  C9, as the code has it. The dialog \<^verbatim>\<open>alert\<close> creates, in a browser, has exactly one button:
  its type is \<^verbatim>\<open>"default"\<close>, its text is the close label (\<^verbatim>\<open>"Close"\<close> when none is given) and
  its value is \<^verbatim>\<open>null\<close>. Once the dialog is shown, the Enter key and a press on the button
  resolve it with that button's value, not cancelled; the Escape key and a press on the
  backdrop dismiss it with no value: it is cancelled and resolves with \<^verbatim>\<open>undefined\<close>.
\<close>

theorem alert_resolution:
  assumes "window w" and "window wa" and "window we"
  shows "\<exists>a w1 b a2.
     alert text0 title0 icon closeText w = (Instance a, w1) \<and>
     buttons a = [b] \<and> b_type b = JStr ''default'' \<and>
     b_text b = param_default closeText (JStr ''Close'') \<and> b_value b = JNull \<and>
     show_admitted a wa = Inr (a2, wa) \<and> buttons a2 = [b] \<and>
     settled (Instance a2) = None \<and>
     (\<forall>r \<in> {handleEvent a2 13 we, button_pressed a2 b we}.
        \<exists>a3 w3. r = Inr (a3, w3) \<and> \<not> cancelled a3 \<and> result a3 = b_value b \<and>
           settled (Instance a3) = Some (Inr (b_value b))) \<and>
     (\<forall>r \<in> {handleEvent a2 27 we, container_pressed a2 we}.
        \<exists>a3 w3. r = Inr (a3, w3) \<and> cancelled a3 \<and> result a3 = JUndefined \<and>
           settled (Instance a3) = Some (Inr JUndefined))"
proof -
  define a where "a = alert_dialog text0 title0 icon closeText w"
  define b where "b = \<lparr>b_text = param_default closeText (JStr ''Close''), b_value = JNull,
                  b_type = JStr ''default'', b_callback = Some 0\<rparr>"
  define a2 where
    "a2 = (createPopup a wa)\<lparr>keydown := True, trace := trace a @ [Emitted ''opened'' JUndefined]\<rparr>"
  have p: "alert text0 title0 icon closeText w =
     (Instance a,
      w\<lparr>popupQueue := queue_add (popupQueue w) (next_id w), next_id := Suc (next_id w)\<rparr>)"
    unfolding a_def using assms(1) by (rule alert_browser)
  have bf: "buttons a = [b]" "b_type b = JStr ''default''"
    "b_text b = param_default closeText (JStr ''Close'')" "b_value b = JNull"
    "b_callback b = Some 0"
    by (simp_all add: a_def b_def alert_dialog_def)
  have sh: "show_admitted a wa = Inr (a2, wa)"
    unfolding a2_def using assms(2) by (simp add: show_admitted_quiet a_def alert_dialog_def)
  have f: "\<not> dismissed a2" "\<not> cancelled a2" "truthy (cancelable a2)"
    "trace a2 = [Emitted ''opened'' JUndefined]" "buttons a2 = [b]"
    by (simp_all add: a2_def a_def b_def alert_dialog_def createPopup_def)
  have fe: "first_emitted ''closed'' (trace a2) = None"
    by (simp add: f(4))
  have s2: "settled (Instance a2) = None"
    by (simp add: fe)
  have fd: "first_of_type ''default'' (buttons a2) = Some b"
    and fc: "first_of_type ''cancel'' (buttons a2) = None"
    by (simp_all add: f(5) bf)
  have e1: "\<exists>a3 w3. handleEvent a2 13 we = Inr (a3, w3) \<and> \<not> cancelled a3 \<and>
           result a3 = b_value b \<and> settled (Instance a3) = Some (Inr (b_value b))"
    using f(1,2) assms(3) fd fe
    by (simp add: handleEvent_def use_button_first used_state_fields bf first_emitted_used_state)
  have e2: "\<exists>a3 w3. button_pressed a2 b we = Inr (a3, w3) \<and> \<not> cancelled a3 \<and>
           result a3 = b_value b \<and> settled (Instance a3) = Some (Inr (b_value b))"
    using f(1,2) assms(3) fe
    by (simp add: button_pressed_first dismissed_state_fields pressed_state_fields bf
          first_emitted_dismissed_state)
  have e3: "\<exists>a3 w3. handleEvent a2 27 we = Inr (a3, w3) \<and> cancelled a3 \<and>
           result a3 = JUndefined \<and> settled (Instance a3) = Some (Inr JUndefined)"
    using f(1,3,4) assms(3) fc
    by (simp add: handleEvent_def dismiss_first dismissed_state_fields
          first_emitted_dismissed_state)
  have e4: "\<exists>a3 w3. container_pressed a2 we = Inr (a3, w3) \<and> cancelled a3 \<and>
           result a3 = JUndefined \<and> settled (Instance a3) = Some (Inr JUndefined)"
    using f(1,3) assms(3) fe
    by (simp add: container_pressed_def dismiss_first dismissed_state_fields
          first_emitted_dismissed_state)
  from p bf sh f(5) s2 e1 e2 e3 e4 show ?thesis
    by simp
qed

theorem alert_resolution_witness:
  "window ex_browser \<and> window ex_shown \<and>
   (\<exists>a b a2.
     alert (JStr ''Saved'') JUndefined JUndefined JUndefined ex_browser = (Instance a, ex_shown) \<and>
     buttons a = [b] \<and> b_type b = JStr ''default'' \<and> b_text b = JStr ''Close'' \<and>
     b_value b = JNull \<and>
     show_admitted a ex_shown = Inr (a2, ex_shown) \<and>
     (\<exists>a3 w3. handleEvent a2 13 ex_shown = Inr (a3, w3) \<and> \<not> cancelled a3 \<and>
        result a3 = JNull \<and> settled (Instance a3) = Some (Inr JNull)) \<and>
     (\<exists>a3 w3. handleEvent a2 27 ex_shown = Inr (a3, w3) \<and> cancelled a3 \<and>
        result a3 = JUndefined \<and> settled (Instance a3) = Some (Inr JUndefined)))"
proof -
  have w: "window ex_browser" "window ex_shown"
    by (simp_all add: ex_browser_def ex_shown_def ex_world_def)
  from alert_resolution[OF w(1) w(2) w(2), of "JStr ''Saved''" JUndefined JUndefined JUndefined]
  obtain a w1 b a2 where
    p: "alert (JStr ''Saved'') JUndefined JUndefined JUndefined ex_browser = (Instance a, w1)"
    and bf: "buttons a = [b]" "b_type b = JStr ''default''"
      "b_text b = param_default JUndefined (JStr ''Close'')" "b_value b = JNull"
    and sh: "show_admitted a ex_shown = Inr (a2, ex_shown)"
    and e1: "\<exists>a3 w3. handleEvent a2 13 ex_shown = Inr (a3, w3) \<and> \<not> cancelled a3 \<and>
        result a3 = b_value b \<and> settled (Instance a3) = Some (Inr (b_value b))"
    and e2: "\<exists>a3 w3. handleEvent a2 27 ex_shown = Inr (a3, w3) \<and> cancelled a3 \<and>
        result a3 = JUndefined \<and> settled (Instance a3) = Some (Inr JUndefined)"
    by auto
  have w1: "w1 = ex_shown"
    using p by (simp add: alert_browser w(1))
      (simp add: ex_shown_def ex_browser_def ex_world_def queue_add_def)
  have t: "b_text b = JStr ''Close''"
    using bf(3) by (simp add: param_default_def)
  from p[unfolded w1] bf(1,2,4) t sh e1[unfolded bf(4)] e2 w show ?thesis by blast
qed

text \<open>
  C9, as the claim has it, fails: the alert of the example, closed by the Escape key, resolves
  with \<^verbatim>\<open>undefined\<close>, and the value of its button is \<^verbatim>\<open>null\<close>.
\<close>

theorem alert_resolution_counterexample:
  "alert (JStr ''Saved'') JUndefined JUndefined JUndefined ex_browser =
     (Instance ex_alert, ex_shown) \<and>
   show_admitted ex_alert ex_shown = Inr (ex_alert_shown, ex_shown) \<and>
   handleEvent ex_alert_shown 27 ex_shown =
     Inr (ex_alert_escaped, ex_shown\<lparr>popupQueue := []\<rparr>) \<and>
   map b_value (buttons ex_alert_shown) = [JNull] \<and>
   result ex_alert_escaped = JUndefined \<and>
   settled (Instance ex_alert_escaped) = Some (Inr JUndefined) \<and>
   JUndefined \<noteq> JNull"
  by (simp add: alert_def JSAlert_new_def addButton_def setIcon_def show_js_def js_or_def
        param_default_def queue_add_def queue_remove_def Let_def
        show_admitted_def private_show_def createPopup_def
        handleEvent_def dismiss.simps emit.simps removeElements_def
        ex_alert_def ex_alert_shown_def ex_alert_escaped_def ex_shown_def ex_browser_def
        ex_world_def)

end
